theory Spec2Isabelle
  imports Main "HOL-Library.Word"
begin

unbundle bit_operations_syntax

section \<open>C strings, \<open>printf("%d")\<close> and \<open>atoi\<close>\<close>

text \<open>
  A C string is modelled by the characters in front of its terminating NUL, so a
  \<^typ>\<open>string\<close> never contains \<^term>\<open>CHR 0x00\<close> by convention; a \<open>NULL\<close> pointer is
  \<^term>\<open>None :: string option\<close>. \<open>int32_t\<close>/\<open>int\<close> is \<^typ>\<open>32 word\<close> read
  through \<^const>\<open>sint\<close>, \<open>uint32_t\<close> is \<^typ>\<open>32 word\<close> read through \<^const>\<open>unat\<close>,
  \<open>uint16_t\<close> is \<^typ>\<open>16 word\<close>.
\<close>

type_synonym int32 = "32 word"
type_synonym uint32 = "32 word"
type_synonym uint16 = "16 word"

definition newline :: char where
  "newline = CHR 0x0A"

text \<open>\<open>strlcpy(dst, src, size)\<close>: at most \<open>size - 1\<close> characters reach \<open>dst\<close>.\<close>

definition strlcpy :: "string \<Rightarrow> nat \<Rightarrow> string" where
  "strlcpy src bufsize = take (bufsize - 1) src"

text \<open>\<open>snprintf(buf, size, ...)\<close> keeps the first \<open>size - 1\<close> characters of the formatted text.\<close>

definition snprintf :: "nat \<Rightarrow> string \<Rightarrow> string" where
  "snprintf bufsize formatted = take (bufsize - 1) formatted"

text \<open>\<open>strncmp(s, lit, n) == 0\<close> for a literal \<open>lit\<close> of exactly \<open>n\<close> characters.\<close>

definition starts_with :: "string \<Rightarrow> string \<Rightarrow> bool" where
  "starts_with s lit = (take (length lit) s = lit)"

text \<open>\<open>strstr(hay, needle) != NULL\<close>.\<close>

fun strstr :: "string \<Rightarrow> string \<Rightarrow> bool" where
  "strstr [] needle = (needle = [])"
| "strstr (c # cs) needle = (starts_with (c # cs) needle \<or> strstr cs needle)"

text \<open>\<open>strchr(s, ch)\<close>: the text before the first \<open>ch\<close> and the text after it.\<close>

fun strchr :: "string \<Rightarrow> char \<Rightarrow> (string \<times> string) option" where
  "strchr [] ch = None"
| "strchr (c # cs) ch =
     (if c = ch then Some ([], cs)
      else (case strchr cs ch of None \<Rightarrow> None | Some (b, a) \<Rightarrow> Some (c # b, a)))"

text \<open>
  \<open>strtok(s, delims)\<close> called until it returns \<open>NULL\<close>: the maximal runs of
  non-delimiter characters, in order. \<open>cur\<close> is the token being collected, reversed.
\<close>

fun strtok_acc :: "char list \<Rightarrow> string \<Rightarrow> string \<Rightarrow> string list" where
  "strtok_acc delims cur [] = (if cur = [] then [] else [rev cur])"
| "strtok_acc delims cur (c # cs) =
     (if c \<in> set delims
      then (if cur = [] then strtok_acc delims [] cs else rev cur # strtok_acc delims [] cs)
      else strtok_acc delims (c # cur) cs)"

definition strtok_all :: "string \<Rightarrow> char list \<Rightarrow> string list" where
  "strtok_all s delims = strtok_acc delims [] s"

text \<open>The \<open>k\<close>-th call of \<open>strtok\<close> (\<open>NULL\<close> once the tokens are used up).\<close>

definition nth_token :: "string list \<Rightarrow> nat \<Rightarrow> string option" where
  "nth_token toks k = (if k < length toks then Some (toks ! k) else None)"

text \<open>
  \<open>fgets(line, size, fp)\<close> called until it returns \<open>NULL\<close>: every call hands out the
  text up to and including the next newline, or \<open>size - 1\<close> characters when no newline
  comes earlier. \<open>n\<close> is \<open>size - 1\<close>, \<open>k\<close> the room left in the buffer and \<open>cur\<close> the
  characters read by the current call, reversed.
\<close>

fun fgets_acc :: "nat \<Rightarrow> nat \<Rightarrow> string \<Rightarrow> string \<Rightarrow> string list" where
  "fgets_acc n k cur [] = (if cur = [] then [] else [rev cur])"
| "fgets_acc n k cur (c # cs) =
     (if c = newline \<or> k \<le> 1 then rev (c # cur) # fgets_acc n n [] cs
      else fgets_acc n (k - 1) (c # cur) cs)"

definition fgets_all :: "nat \<Rightarrow> string \<Rightarrow> string list" where
  "fgets_all bufsize content = fgets_acc (bufsize - 1) (bufsize - 1) [] content"

text \<open>The first \<open>fgets\<close> on a freshly opened file (\<open>None\<close> is the \<open>NULL\<close> of an empty file).\<close>

definition fgets_first :: "nat \<Rightarrow> string \<Rightarrow> string option" where
  "fgets_first bufsize content = (case fgets_all bufsize content of [] \<Rightarrow> None | l # _ \<Rightarrow> Some l)"

text \<open>A buffer filled from a file is read as a C string: it ends at the first NUL byte.\<close>

definition c_str :: "string \<Rightarrow> string" where
  "c_str bytes = takeWhile (\<lambda>c. c \<noteq> CHR 0x00) bytes"

subsection \<open>Decimal output\<close>

definition digit_char :: "nat \<Rightarrow> char" where
  "digit_char d = ''0123456789'' ! d"

fun show_nat :: "nat \<Rightarrow> string" where
  "show_nat n = (if n < 10 then [digit_char n] else show_nat (n div 10) @ [digit_char (n mod 10)])"

declare show_nat.simps [simp del]

text \<open>\<open>printf("%d", i)\<close>.\<close>

definition show_int :: "int \<Rightarrow> string" where
  "show_int i = (if i < 0 then CHR ''-'' # show_nat (nat (- i)) else show_nat (nat i))"

definition show_int32 :: "int32 \<Rightarrow> string" where
  "show_int32 w = show_int (sint w)"

subsection \<open>Decimal input\<close>

definition is_digit :: "char \<Rightarrow> bool" where
  "is_digit c = (48 \<le> (of_char c :: nat) \<and> (of_char c :: nat) \<le> 57)"

definition digit_val :: "char \<Rightarrow> int" where
  "digit_val c = int (of_char c) - 48"

text \<open>\<open>isspace\<close> in the C locale: space, \<open>\t \n \v \f \r\<close>.\<close>

definition is_space :: "char \<Rightarrow> bool" where
  "is_space c = (c = CHR '' '' \<or> (9 \<le> (of_char c :: nat) \<and> (of_char c :: nat) \<le> 13))"

fun parse_digits :: "int \<Rightarrow> string \<Rightarrow> int" where
  "parse_digits acc [] = acc"
| "parse_digits acc (c # cs) =
     (if is_digit c then parse_digits (acc * 10 + digit_val c) cs else acc)"

text \<open>The part of the input left behind by the digits.\<close>

fun drop_digits :: "string \<Rightarrow> string" where
  "drop_digits [] = []"
| "drop_digits (c # cs) = (if is_digit c then drop_digits cs else c # cs)"

text \<open>Sign and magnitude after the leading white space: \<open>strtol\<close> in base 10.\<close>

definition signed_digits :: "string \<Rightarrow> int" where
  "signed_digits s =
     (case s of
        [] \<Rightarrow> 0
      | c # cs \<Rightarrow>
          if c = CHR ''-'' then - parse_digits 0 cs
          else if c = CHR ''+'' then parse_digits 0 cs
          else parse_digits 0 (c # cs))"

definition LONG_MAX :: int where
  "LONG_MAX = 2 ^ 63 - 1"

definition LONG_MIN :: int where
  "LONG_MIN = - (2 ^ 63)"

text \<open>
  \<open>atoi(s)\<close> is \<open>(int) strtol(s, NULL, 10)\<close>: white space is skipped, an optional sign and the
  digits are read, text without digits gives 0. Values that fit \<open>int\<close> are returned as
  they are; beyond that the C standard leaves the result open, and the model follows the
  C library of the target platform (LP64): \<open>strtol\<close> saturates at the bounds of \<open>long\<close> and
  the conversion to \<open>int\<close> keeps the low 32 bits.
\<close>

definition atoi :: "string \<Rightarrow> int32" where
  "atoi s = word_of_int (max LONG_MIN (min LONG_MAX (signed_digits (dropWhile is_space s))))"

text \<open>
  One \<open>%d\<close> conversion of \<open>fscanf\<close>: white space is skipped, then an optional sign and at
  least one digit are required (otherwise the conversion fails); the rest of the input is
  returned with the value.
\<close>

definition scan_int :: "string \<Rightarrow> (int32 \<times> string) option" where
  "scan_int s =
     (let t = dropWhile is_space s;
          body = (case t of [] \<Rightarrow> [] | c # cs \<Rightarrow> if c = CHR ''-'' \<or> c = CHR ''+'' then cs else c # cs)
      in case body of
           [] \<Rightarrow> None
         | d # _ \<Rightarrow>
             if is_digit d
             then Some (word_of_int (max LONG_MIN (min LONG_MAX (signed_digits t))), drop_digits body)
             else None)"

section \<open>The file system\<close>

text \<open>
  Files are named by their path. \<open>fopen(path, "r")\<close> succeeds when the file exists;
  whether \<open>fopen(path, "w")\<close> or \<open>fopen(path, "a")\<close> succeeds is decided by the
  environment (\<open>can_write\<close>: permissions, a missing directory, a full disk).
\<close>

record filesystem =
  files :: "string \<Rightarrow> string option"
  can_write :: "string \<Rightarrow> bool"

text \<open>\<open>fopen(path, "w")\<close>, one \<open>fputs\<close>/\<open>fprintf\<close> of \<open>text\<close>, \<open>fclose\<close>.\<close>

definition write_file :: "filesystem \<Rightarrow> string \<Rightarrow> string \<Rightarrow> filesystem" where
  "write_file fs path text = fs\<lparr>files := (files fs)(path \<mapsto> text)\<rparr>"

text \<open>\<open>fopen(path, "a")\<close>, one \<open>fputs\<close> of \<open>text\<close>, \<open>fclose\<close>.\<close>

definition append_file :: "filesystem \<Rightarrow> string \<Rightarrow> string \<Rightarrow> filesystem" where
  "append_file fs path text =
     fs\<lparr>files := (files fs)(path \<mapsto> (case files fs path of None \<Rightarrow> text | Some old \<Rightarrow> old @ text))\<rparr>"

section \<open>hash.c: the chained hash table\<close>

definition HASH_SIZE :: nat where
  "HASH_SIZE = 1024"

definition MAX_KEY_SIZE :: nat where
  "MAX_KEY_SIZE = 255"

definition MAX_VALUE_SIZE :: nat where
  "MAX_VALUE_SIZE = 1024"

text \<open>
  \<open>(unsigned int) c\<close> for a \<open>char c\<close>: \<open>char\<close> is signed on the target platform, so bytes
  from 128 on are sign-extended.
\<close>

definition char_as_uint :: "char \<Rightarrow> uint32" where
  "char_as_uint c = signed (of_char c :: 8 word)"

text \<open>\<open>hash_func\<close>: \<open>hash = ((hash << 5) + hash) + c\<close> from 5381, modulo \<open>HASH_SIZE\<close>.\<close>

fun hash_func_loop :: "uint32 \<Rightarrow> string \<Rightarrow> uint32" where
  "hash_func_loop h [] = h"
| "hash_func_loop h (c # cs) = hash_func_loop ((push_bit 5 h + h) + char_as_uint c) cs"

definition hash_func :: "string \<Rightarrow> nat" where
  "hash_func key = unat (hash_func_loop 5381 key) mod HASH_SIZE"

text \<open>\<open>hash\<close>: \<open>hash_val = (hash_val << 5) + c\<close> from 0, modulo \<open>HASH_SIZE\<close>.\<close>

fun hash_loop :: "uint32 \<Rightarrow> string \<Rightarrow> uint32" where
  "hash_loop h [] = h"
| "hash_loop h (c # cs) = hash_loop (push_bit 5 h + char_as_uint c) cs"

definition hash :: "string \<Rightarrow> nat" where
  "hash key = unat (hash_loop 0 key) mod HASH_SIZE"

record hash_entry_t =
  key :: string
  val :: string

text \<open>
  \<open>hash_table_t\<close>: \<open>entries[i]\<close> is the chain of bucket \<open>i\<close>, head first. The mutex is not
  modelled: every operation runs from lock to unlock without interleaving.
\<close>

type_synonym hash_table_t = "nat \<Rightarrow> hash_entry_t list"

definition hash_init :: hash_table_t where
  "hash_init = (\<lambda>i. [])"

text \<open>
  The loop of \<open>hash_put\<close> over one chain: the first entry whose key compares equal gets
  the new value; \<open>None\<close> when the loop runs off the end of the chain.
\<close>

fun put_chain :: "string \<Rightarrow> string \<Rightarrow> hash_entry_t list \<Rightarrow> hash_entry_t list option" where
  "put_chain k v [] = None"
| "put_chain k v (e # es) =
     (if key e = k then Some (e\<lparr>val := strlcpy v MAX_VALUE_SIZE\<rparr> # es)
      else (case put_chain k v es of None \<Rightarrow> None | Some es' \<Rightarrow> Some (e # es')))"

text \<open>
  \<open>hash_put\<close>; \<open>alloc_ok\<close> says whether \<open>rmalloc\<close> returns memory. The result is the return
  value and the table afterwards.
\<close>

definition hash_put ::
  "bool \<Rightarrow> hash_table_t option \<Rightarrow> string option \<Rightarrow> string option \<Rightarrow> int \<times> hash_table_t option"
where
  "hash_put alloc_ok table k v =
     (case (table, k, v) of
        (Some t, Some k', Some v') \<Rightarrow>
          if length k' \<ge> MAX_KEY_SIZE \<or> length v' \<ge> MAX_VALUE_SIZE then (- 1, table)
          else
            (let index = hash k' in
             case put_chain k' v' (t index) of
               Some chain \<Rightarrow> (0, Some (t(index := chain)))
             | None \<Rightarrow>
                 if \<not> alloc_ok then (- 1, table)
                 else (0, Some (t(index :=
                         \<lparr>key = strlcpy k' MAX_KEY_SIZE, val = strlcpy v' MAX_VALUE_SIZE\<rparr> # t index))))
      | _ \<Rightarrow> (- 1, table))"

fun get_chain :: "string \<Rightarrow> hash_entry_t list \<Rightarrow> string option" where
  "get_chain k [] = None"
| "get_chain k (e # es) = (if key e = k then Some (val e) else get_chain k es)"

text \<open>
  \<open>hash_get\<close> into a caller buffer of \<open>value_size\<close> bytes (the buffer pointer itself is
  taken to be non-\<open>NULL\<close>). The result is the return value and, on success, the buffer.
\<close>

definition hash_get :: "hash_table_t option \<Rightarrow> string option \<Rightarrow> nat \<Rightarrow> int \<times> string option" where
  "hash_get table k value_size =
     (case (table, k) of
        (Some t, Some k') \<Rightarrow>
          if value_size = 0 then (- 1, None)
          else
            (let hash_val = hash_func k' in
             case get_chain k' (t hash_val) of
               Some v \<Rightarrow> (0, Some (strlcpy v value_size))
             | None \<Rightarrow> (- 1, None))
      | _ \<Rightarrow> (- 1, None))"

fun delete_chain :: "string \<Rightarrow> hash_entry_t list \<Rightarrow> hash_entry_t list option" where
  "delete_chain k [] = None"
| "delete_chain k (e # es) =
     (if key e = k then Some es
      else (case delete_chain k es of None \<Rightarrow> None | Some es' \<Rightarrow> Some (e # es')))"

definition hash_delete :: "hash_table_t option \<Rightarrow> string option \<Rightarrow> int \<times> hash_table_t option" where
  "hash_delete table k =
     (case (table, k) of
        (Some t, Some k') \<Rightarrow>
          (let index = hash k' in
           case delete_chain k' (t index) of
             Some chain \<Rightarrow> (0, Some (t(index := chain)))
           | None \<Rightarrow> (- 1, table))
      | _ \<Rightarrow> (- 1, table))"

section \<open>db.c: the wrappers around the global table\<close>

text \<open>
  The argument \<open>db\<close> is \<open>global_cluster_db.hash_table\<close> (\<open>None\<close> before \<open>db_init\<close>).
\<close>

definition DB_SUCCESS :: int where
  "DB_SUCCESS = 0"

definition db_get :: "hash_table_t option \<Rightarrow> string option \<Rightarrow> nat \<Rightarrow> int \<times> string option" where
  "db_get db k value_size =
     (let (get_ret, buf) = hash_get db k value_size
      in if get_ret \<noteq> 0 then (- 1, None) else (0, buf))"

definition db_insert ::
  "bool \<Rightarrow> hash_table_t option \<Rightarrow> string option \<Rightarrow> string option \<Rightarrow> int \<times> hash_table_t option"
where
  "db_insert alloc_ok db k v = (DB_SUCCESS, snd (hash_put alloc_ok db k v))"

definition db_delete :: "hash_table_t option \<Rightarrow> string option \<Rightarrow> int \<times> hash_table_t option" where
  "db_delete db k = (DB_SUCCESS, snd (hash_delete db k))"

section \<open>The process state\<close>

datatype node_state_t = NODE_STATE_LEADER | NODE_STATE_CANDIDATE | NODE_STATE_OFFLINE

datatype node_status_t = NODE_STATUS_ACTIVE | NODE_STATUS_INACTIVE | NODE_STATUS_FAILED

text \<open>
  \<open>node_t\<close>. The fields \<open>id\<close>, \<open>term\<close>, \<open>last_log_index\<close>, \<open>last_log_term\<close> and
  \<open>last_heartbeat\<close> carry the prefix \<open>node_\<close> here. \<open>name\<close> holds up to 254 characters
  (\<open>char name[255]\<close>), \<open>ip\<close> up to 63 (\<open>char ip[64]\<close>).
\<close>

record node_t =
  node_id :: int32
  name :: string
  ip :: string
  rale_port :: uint16
  dstore_port :: uint16
  priority :: int32
  state :: node_state_t
  status :: node_status_t
  node_term :: uint32
  node_last_log_index :: "64 word"
  node_last_log_term :: uint32
  node_last_heartbeat :: int
  is_voting_member :: bool

definition NAME_MAX :: nat where
  "NAME_MAX = 255"

definition IP_ADDR_MAX :: nat where
  "IP_ADDR_MAX = 64"

definition MAX_NODES :: nat where
  "MAX_NODES = 10"

text \<open>A \<open>node_t\<close> after \<open>memset(..., 0, ...)\<close>.\<close>

definition zero_node :: node_t where
  "zero_node =
     \<lparr>node_id = 0, name = [], ip = [], rale_port = 0, dstore_port = 0, priority = 0,
      state = NODE_STATE_LEADER, status = NODE_STATUS_ACTIVE, node_term = 0,
      node_last_log_index = 0, node_last_log_term = 0, node_last_heartbeat = 0,
      is_voting_member = False\<rparr>"

text \<open>
  \<open>cluster_t\<close>. The array \<open>nodes[MAX_NODES]\<close> is a function of the index; the code only
  reads and writes indices below \<open>MAX_NODES\<close> as long as \<open>node_count\<close> is at most
  \<open>MAX_NODES\<close>.
\<close>

record cluster_t =
  nodes :: "nat \<Rightarrow> node_t"
  node_count :: uint32
  self_id :: int32

text \<open>The fields of \<open>config_t\<close> that the modelled code reads.\<close>

record config_t =
  db_path :: string
  node_db_path :: string
  config_node_id :: int32
  keep_alive_interval :: uint32
  keep_alive_timeout :: uint32

datatype rale_role_t =
  rale_role_follower | rale_role_candidate | rale_role_leader | rale_role_transitioning

record rale_state_t =
  current_term :: int32
  voted_for :: int32
  leader_id :: int32
  role :: rale_role_t
  last_log_index :: int32
  last_log_term :: int32
  commit_index :: int32
  last_applied :: int32
  last_heartbeat :: int
  election_deadline :: int

text \<open>\<open>tcp_client_t\<close>: the socket, the connection flag and the peer address.\<close>

record tcp_client_t =
  sock :: int
  is_connected :: int
  ip_address :: string
  port :: int

text \<open>\<open>tcp_server_t\<close>: the accepted sockets, \<open>-1\<close> for a free slot.\<close>

record tcp_server_t =
  client_socks :: "nat \<Rightarrow> int"
  max_clients :: int

definition TCP_SERVER_MAX_CLIENTS :: nat where
  "TCP_SERVER_MAX_CLIENTS = 5"

text \<open>Where a DStore message went: an outbound client link or an accepted server slot.\<close>

datatype link = Client_link nat | Server_slot nat

text \<open>
  The global variables of \<open>cluster.c\<close>, \<open>db.c\<close>, \<open>dstore.c\<close> and \<open>rale_proto.c\<close>, the files,
  and what the environment decides during one call: the clock read by \<open>time(NULL)\<close>, the
  value of \<open>rand()\<close>, whether \<open>rmalloc\<close> finds memory, whether \<open>send(2)\<close> transmits a whole
  message, \<open>errno\<close> after a failed \<open>send\<close>, whether \<open>udp_client_init(port, NULL)\<close> returns
  a socket bound to \<open>port\<close> (it returns \<open>NULL\<close> when \<open>malloc\<close>, \<open>socket\<close> or \<open>bind\<close> fails, and
  \<open>bind\<close> fails for a port that is already bound, such as the port of the node's own UDP
  server), and whether \<open>udp_sendto\<close> to an address and port returns 0 (\<open>inet_pton\<close> accepts
  the address and \<open>sendto\<close> does not fail). \<open>tcp_sent\<close> and \<open>udp_sent\<close> list, oldest first, the
  messages that went out through the sockets: for TCP the link and the text, for UDP the
  text with the target address and port.
\<close>

record world =
  fs :: filesystem
  clock :: int
  rand_value :: nat
  alloc_ok :: bool
  send_ok :: bool
  errno :: int
  udp_client_ok :: "int \<Rightarrow> bool"
  udp_sendto_ok :: "string \<Rightarrow> int \<Rightarrow> bool"
  cluster_state_file :: string
  cluster_initialized :: bool
  cluster :: cluster_t
  hash_table :: "hash_table_t option"
  dstore_config :: config_t
  tcp_server_ptr :: "tcp_server_t option"
  tcp_clients :: "nat \<Rightarrow> tcp_client_t option"
  connection_status :: "nat \<Rightarrow> int"
  client_socket_to_node :: "nat \<Rightarrow> int32"
  tcp_sent :: "(link \<times> string) list"
  rale_config :: config_t
  current_rale_state :: rale_state_t
  votes_received :: int32
  election_active :: int32
  next_heartbeat_at :: int
  next_vote_request_at :: int
  udp_sent :: "(string \<times> string \<times> int) list"

section \<open>cluster.c: the membership registry\<close>

definition RALE_SUCCESS :: int where
  "RALE_SUCCESS = 0"

definition RALE_ERROR_GENERAL :: int where
  "RALE_ERROR_GENERAL = - 1"

definition MAX_REASONABLE_NODE_ID :: int where
  "MAX_REASONABLE_NODE_ID = 1000"

definition MAX_REASONABLE_PORT :: nat where
  "MAX_REASONABLE_PORT = 65535"

definition MAX_REASONABLE_NAME_LEN :: nat where
  "MAX_REASONABLE_NAME_LEN = 256"

definition MAX_REASONABLE_IP_LEN :: nat where
  "MAX_REASONABLE_IP_LEN = 46"

text \<open>The five lines \<open>cluster_save_state\<close> writes for slot \<open>i\<close>, each through a 256-byte buffer.\<close>

definition node_lines :: "nat \<Rightarrow> node_t \<Rightarrow> string" where
  "node_lines i n =
     snprintf 256 (''node['' @ show_int32 (of_nat i) @ ''].id='' @ show_int32 (node_id n) @ [newline]) @
     snprintf 256 (''node['' @ show_int32 (of_nat i) @ ''].name='' @ name n @ [newline]) @
     snprintf 256 (''node['' @ show_int32 (of_nat i) @ ''].ip='' @ ip n @ [newline]) @
     snprintf 256 (''node['' @ show_int32 (of_nat i) @ ''].rale_port='' @ show_int (uint (rale_port n)) @ [newline]) @
     snprintf 256 (''node['' @ show_int32 (of_nat i) @ ''].dstore_port='' @ show_int (uint (dstore_port n)) @ [newline])"

definition cluster_state_text :: "cluster_t \<Rightarrow> string" where
  "cluster_state_text c =
     snprintf 256 (''self_id='' @ show_int32 (self_id c) @ [newline]) @
     snprintf 256 (''node_count='' @ show_int32 (node_count c) @ [newline]) @
     concat (map (\<lambda>i. node_lines i (nodes c i)) [0..<unat (node_count c)])"

definition cluster_save_state :: "world \<Rightarrow> int \<times> world" where
  "cluster_save_state w =
     (if cluster_state_file w = [] then (RALE_SUCCESS, w)
      else if \<not> can_write (fs w) (cluster_state_file w) then (RALE_ERROR_GENERAL, w)
      else (RALE_SUCCESS,
            w\<lparr>fs := write_file (fs w) (cluster_state_file w) (cluster_state_text (cluster w))\<rparr>))"

text \<open>The first index below \<open>node_count\<close> whose slot carries the id, as the search loops find it.\<close>

definition find_slot :: "cluster_t \<Rightarrow> int32 \<Rightarrow> nat option" where
  "find_slot c i = find (\<lambda>j. node_id (nodes c j) = i) [0..<unat (node_count c)]"

text \<open>\<open>cluster_add_node\<close>: the checks in the order of the source; \<open>clock\<close> is \<open>time(NULL)\<close>.\<close>

definition cluster_add_node ::
  "world \<Rightarrow> int32 \<Rightarrow> string option \<Rightarrow> string option \<Rightarrow> uint16 \<Rightarrow> uint16 \<Rightarrow> int \<times> world"
where
  "cluster_add_node w new_id name_arg ip_arg rport dport =
     (if \<not> cluster_initialized w then (RALE_ERROR_GENERAL, w)
      else if sint new_id \<le> 0 \<or> sint new_id > MAX_REASONABLE_NODE_ID then (RALE_ERROR_GENERAL, w)
      else case name_arg of
        None \<Rightarrow> (RALE_ERROR_GENERAL, w)
      | Some nm \<Rightarrow>
        if length nm = 0 \<or> length nm > MAX_REASONABLE_NAME_LEN then (RALE_ERROR_GENERAL, w)
        else case ip_arg of
          None \<Rightarrow> (RALE_ERROR_GENERAL, w)
        | Some addr \<Rightarrow>
          if length addr = 0 \<or> length addr > MAX_REASONABLE_IP_LEN then (RALE_ERROR_GENERAL, w)
          else if unat rport \<le> 0 \<or> unat rport > MAX_REASONABLE_PORT then (RALE_ERROR_GENERAL, w)
          else if unat dport \<le> 0 \<or> unat dport > MAX_REASONABLE_PORT then (RALE_ERROR_GENERAL, w)
          else if find_slot (cluster w) new_id \<noteq> None then (RALE_ERROR_GENERAL, w)
          else if unat (node_count (cluster w)) \<ge> MAX_NODES then (RALE_ERROR_GENERAL, w)
          else
            (let c = cluster w;
                 k = unat (node_count c);
                 node = (nodes c k)
                   \<lparr>node_id := new_id,
                    name := strlcpy nm NAME_MAX,
                    ip := strlcpy addr IP_ADDR_MAX,
                    rale_port := rport,
                    dstore_port := dport,
                    status := NODE_STATUS_ACTIVE,
                    node_last_heartbeat := clock w\<rparr>;
                 c' = c\<lparr>nodes := (nodes c)(k := node), node_count := node_count c + 1\<rparr>
             in (RALE_SUCCESS, snd (cluster_save_state (w\<lparr>cluster := c'\<rparr>)))))"

text \<open>\<open>cluster_remove_node\<close>: the slots above the removed one move down by one.\<close>

definition cluster_remove_node :: "world \<Rightarrow> int32 \<Rightarrow> int \<times> world" where
  "cluster_remove_node w rid =
     (if \<not> cluster_initialized w then (RALE_ERROR_GENERAL, w)
      else case find_slot (cluster w) rid of
        None \<Rightarrow> (RALE_ERROR_GENERAL, w)
      | Some i \<Rightarrow>
          (let c = cluster w;
               n = unat (node_count c);
               c' = c\<lparr>nodes := (\<lambda>j. if i \<le> j \<and> j < n - 1 then nodes c (j + 1) else nodes c j),
                      node_count := node_count c - 1\<rparr>
           in (RALE_SUCCESS, snd (cluster_save_state (w\<lparr>cluster := c'\<rparr>)))))"

text \<open>The registry after \<open>memset\<close>, \<open>node_count = 0\<close> and \<open>self_id = -1\<close>.\<close>

definition empty_cluster :: cluster_t where
  "empty_cluster = \<lparr>nodes = (\<lambda>i. zero_node), node_count = 0, self_id = - 1\<rparr>"

text \<open>
  The local variables of \<open>cluster_load_state\<close> that live across lines, together with
  the registry being filled.
\<close>

record load_vars =
  lv_cluster :: cluster_t
  node_index :: nat
  lv_node_id :: int32
  node_name :: string
  node_ip :: string
  lv_rale_port :: uint16
  lv_dstore_port :: uint16

text \<open>
  The split of one line at its first \<open>=\<close> into \<open>key\<close> and \<open>value\<close>, after the newline is cut
  off; \<open>None\<close> for the lines the loop skips with \<open>continue\<close> (no \<open>=\<close>, a key of 64 characters
  or more, a value of 256 characters or more).
\<close>

definition split_state_line :: "string \<Rightarrow> (string \<times> string) option" where
  "split_state_line raw =
     (let line = takeWhile (\<lambda>c. c \<noteq> newline) (c_str raw)
      in case strchr line (CHR ''='') of
           None \<Rightarrow> None
         | Some (k, value_str) \<Rightarrow>
             if length k \<ge> 64 then None
             else if length value_str \<ge> 256 then None
             else Some (strlcpy line (length k + 1), strlcpy value_str 256))"

text \<open>The \<open>if\<close>/\<open>else if\<close> chain on the key, in the order of the source.\<close>

definition apply_state_line :: "load_vars \<Rightarrow> string \<Rightarrow> string \<Rightarrow> load_vars" where
  "apply_state_line v k value =
     (if k = ''self_id'' then v\<lparr>lv_cluster := (lv_cluster v)\<lparr>self_id := atoi value\<rparr>\<rparr>
      else if k = ''node_count'' then v\<lparr>lv_cluster := (lv_cluster v)\<lparr>node_count := atoi value\<rparr>\<rparr>
      else if starts_with k ''node['' \<and> strstr k ''].id'' then v\<lparr>lv_node_id := atoi value\<rparr>
      else if starts_with k ''node['' \<and> strstr k ''].name'' then v\<lparr>node_name := strlcpy value 256\<rparr>
      else if starts_with k ''node['' \<and> strstr k ''].ip'' then v\<lparr>node_ip := strlcpy value 256\<rparr>
      else if starts_with k ''node['' \<and> strstr k ''].rale_port''
        then v\<lparr>lv_rale_port := ucast (atoi value)\<rparr>
      else if starts_with k ''node['' \<and> strstr k ''].dstore_port''
        then (let v1 = v\<lparr>lv_dstore_port := ucast (atoi value)\<rparr>
              in if node_index v1 < MAX_NODES
                 then (let c = lv_cluster v1;
                           i = node_index v1;
                           node = (nodes c i)
                             \<lparr>node_id := lv_node_id v1,
                              name := strlcpy (node_name v1) NAME_MAX,
                              ip := strlcpy (node_ip v1) IP_ADDR_MAX,
                              rale_port := lv_rale_port v1,
                              dstore_port := lv_dstore_port v1\<rparr>
                       in v1\<lparr>lv_cluster := c\<lparr>nodes := (nodes c)(i := node)\<rparr>,
                             node_index := i + 1\<rparr>)
                 else v1)
      else v)"

definition load_line :: "load_vars \<Rightarrow> string \<Rightarrow> load_vars" where
  "load_line v raw =
     (case split_state_line raw of None \<Rightarrow> v | Some (k, value) \<Rightarrow> apply_state_line v k value)"

definition initial_load_vars :: load_vars where
  "initial_load_vars =
     \<lparr>lv_cluster = empty_cluster, node_index = 0, lv_node_id = 0, node_name = [], node_ip = [],
      lv_rale_port = 0, lv_dstore_port = 0\<rparr>"

text \<open>The registry \<open>cluster_load_state\<close> builds from the text of the state file.\<close>

definition load_cluster_text :: "string \<Rightarrow> cluster_t" where
  "load_cluster_text content = lv_cluster (foldl load_line initial_load_vars (fgets_all 512 content))"

definition cluster_load_state :: "world \<Rightarrow> int \<times> world" where
  "cluster_load_state w =
     (if cluster_state_file w = [] then (RALE_SUCCESS, w)
      else case files (fs w) (cluster_state_file w) of
        None \<Rightarrow> (RALE_SUCCESS, w)
      | Some content \<Rightarrow> (RALE_SUCCESS, w\<lparr>cluster := load_cluster_text content\<rparr>))"

section \<open>rale_proto.c: persistence of the election state\<close>

text \<open>\<open>base_path\<close>: \<open>db.path\<close> if set, else \<open>node.db_path\<close> if set, else \<open>NULL\<close>.\<close>

definition rale_base_path :: "config_t \<Rightarrow> string option" where
  "rale_base_path cfg =
     (if db_path cfg \<noteq> [] then Some (db_path cfg)
      else if node_db_path cfg \<noteq> [] then Some (node_db_path cfg)
      else None)"

text \<open>The text of \<open>fprintf(file, "%d %d %d %d %d\n", ...)\<close>.\<close>

definition state_line :: "int32 \<Rightarrow> int32 \<Rightarrow> int32 \<Rightarrow> int32 \<Rightarrow> int32 \<Rightarrow> string" where
  "state_line t v l li lt =
     show_int32 t @ '' '' @ show_int32 v @ '' '' @ show_int32 l @ '' '' @ show_int32 li @ '' '' @
     show_int32 lt @ [newline]"

definition rale_state_line :: "rale_state_t \<Rightarrow> string" where
  "rale_state_line st =
     state_line (current_term st) (voted_for st) (leader_id st) (last_log_index st) (last_log_term st)"

text \<open>
  \<open>rale_state_save\<close> (the \<open>state\<close> pointer is not \<open>NULL\<close>). A failing \<open>fopen\<close> and a failing
  \<open>fprintf\<close> both return \<open>-1\<close>; \<open>can_write\<close> stands for the two together.
\<close>

definition rale_state_save :: "world \<Rightarrow> rale_state_t \<Rightarrow> int \<times> world" where
  "rale_state_save w st =
     (case rale_base_path (rale_config w) of
        None \<Rightarrow> (- 1, w)
      | Some base \<Rightarrow>
          (let filename = snprintf 512 (base @ ''/rale.state'')
           in if \<not> can_write (fs w) filename then (- 1, w)
              else (0, w\<lparr>fs := write_file (fs w) filename (rale_state_line st)\<rparr>)))"

text \<open>\<open>fscanf(file, "%d %d %d %d %d", ...) == 5\<close> with the five values.\<close>

definition scan_five :: "string \<Rightarrow> (int32 \<times> int32 \<times> int32 \<times> int32 \<times> int32) option" where
  "scan_five s =
     (case scan_int s of None \<Rightarrow> None | Some (a, s1) \<Rightarrow>
      case scan_int s1 of None \<Rightarrow> None | Some (b, s2) \<Rightarrow>
      case scan_int s2 of None \<Rightarrow> None | Some (c, s3) \<Rightarrow>
      case scan_int s3 of None \<Rightarrow> None | Some (d, s4) \<Rightarrow>
      case scan_int s4 of None \<Rightarrow> None | Some (e, s5) \<Rightarrow> Some (a, b, c, d, e))"

text \<open>\<open>rale_state_load\<close>: the return value and the state it leaves in \<open>*state\<close>.\<close>

definition rale_state_load :: "world \<Rightarrow> rale_state_t \<Rightarrow> int \<times> rale_state_t" where
  "rale_state_load w st =
     (case rale_base_path (rale_config w) of
        None \<Rightarrow> (- 1, st)
      | Some base \<Rightarrow>
          (case files (fs w) (snprintf 512 (base @ ''/rale.state'')) of
             None \<Rightarrow> (- 1, st)
           | Some content \<Rightarrow>
               (case scan_five content of
                  None \<Rightarrow> (- 1, st)
                | Some (t, v, l, li, lt) \<Rightarrow>
                    (let st1 = (if sint t \<ge> 0 then st\<lparr>current_term := t\<rparr> else st);
                         st2 = (if sint v \<ge> 0 then st1\<lparr>voted_for := v\<rparr> else st1);
                         st3 = (if sint l \<ge> 0 then st2\<lparr>leader_id := l\<rparr> else st2);
                         st4 = (if sint li \<ge> 0 then st3\<lparr>last_log_index := li\<rparr> else st3);
                         st5 = (if sint lt \<ge> 0 then st4\<lparr>last_log_term := lt\<rparr> else st4)
                     in (0, st5)))))"

definition DEFAULT_ELECTION_TIMEOUT :: int32 where
  "DEFAULT_ELECTION_TIMEOUT = 5"

definition DEFAULT_HEARTBEAT_INTERVAL :: int32 where
  "DEFAULT_HEARTBEAT_INTERVAL = 1"

definition get_keep_alive_timeout :: "world \<Rightarrow> int32" where
  "get_keep_alive_timeout w =
     (if unat (keep_alive_timeout (rale_config w)) > 0 then keep_alive_timeout (rale_config w)
      else DEFAULT_ELECTION_TIMEOUT)"

definition get_heartbeat_interval :: "world \<Rightarrow> int32" where
  "get_heartbeat_interval w =
     (if unat (keep_alive_interval (rale_config w)) > 0 then keep_alive_interval (rale_config w)
      else DEFAULT_HEARTBEAT_INTERVAL)"

text \<open>\<open>time(NULL) + base + rand() % (base > 0 ? base : 1)\<close>, the sum of the two \<open>int\<close>s wrapping.\<close>

definition compute_election_deadline :: "world \<Rightarrow> int" where
  "compute_election_deadline w =
     (let base = get_keep_alive_timeout w;
          jitter = base + of_nat (rand_value w mod (if sint base > 0 then nat (sint base) else 1))
      in clock w + sint jitter)"

text \<open>The state \<open>rale_proto_init\<close> sets up before it calls \<open>rale_state_load\<close>.\<close>

definition rale_initial_state :: "world \<Rightarrow> rale_state_t" where
  "rale_initial_state w =
     \<lparr>current_term = 0, voted_for = - 1, leader_id = - 1, role = rale_role_follower,
      last_log_index = 0, last_log_term = 0, commit_index = 0, last_applied = 0,
      last_heartbeat = clock w, election_deadline = compute_election_deadline w\<rparr>"





section \<open>dstore.c: replication\<close>

definition REPLICATION_MESSAGE_BUFFER_SIZE :: nat where
  "REPLICATION_MESSAGE_BUFFER_SIZE = MAX_KEY_SIZE + MAX_VALUE_SIZE + 10"

definition db_insert_w :: "world \<Rightarrow> string \<Rightarrow> string \<Rightarrow> int \<times> world" where
  "db_insert_w w k v =
     (let (r, t) = db_insert (alloc_ok w) (hash_table w) (Some k) (Some v)
      in (r, w\<lparr>hash_table := t\<rparr>))"

definition find_node_index_by_id :: "world \<Rightarrow> int32 \<Rightarrow> nat" where
  "find_node_index_by_id w i = (case find_slot (cluster w) i of Some j \<Rightarrow> j | None \<Rightarrow> MAX_NODES)"

text \<open>
  \<open>dstore_client_on_disconnection\<close>: the peer with this address and port is marked
  disconnected and offline, and the first client that owns the socket is dropped
  (\<open>tcp_clients[j] = NULL\<close>). The source releases that client twice (\<open>tcp_client_cleanup\<close>
  frees it and \<open>free\<close> is called on it again); the model only records that the slot is
  cleared.
\<close>

definition dstore_client_on_disconnection :: "world \<Rightarrow> int \<Rightarrow> string \<Rightarrow> int \<Rightarrow> world" where
  "dstore_client_on_disconnection w client_sock client_ip client_port =
     (let c = cluster w;
          w1 = (case find (\<lambda>j. ip (nodes c j) = client_ip \<and> uint (dstore_port (nodes c j)) = client_port)
                       [0..<unat (node_count c)] of
                  None \<Rightarrow> w
                | Some node_idx \<Rightarrow>
                    w\<lparr>connection_status := (connection_status w)(node_idx := 0),
                      cluster := c\<lparr>nodes := (nodes c)(node_idx := (nodes c node_idx)\<lparr>state := NODE_STATE_OFFLINE\<rparr>)\<rparr>\<rparr>)
      in if node_count (cluster w1) = 0 then w1
         else (case find (\<lambda>j. case tcp_clients w1 j of None \<Rightarrow> False | Some cl \<Rightarrow> sock cl = client_sock)
                      [0..<MAX_NODES] of
                 None \<Rightarrow> w1
               | Some j \<Rightarrow>
                   w1\<lparr>tcp_clients := (tcp_clients w1)(j := None),
                      connection_status := (connection_status w1)(j := 0)\<rparr>))"

text \<open>
  \<open>tcp_client_send\<close> on \<open>tcp_clients[idx]\<close>: nothing for a missing or unconnected client;
  a failed or partial \<open>send\<close> clears \<open>is_connected\<close> and runs the disconnection callback
  with \<open>errno\<close> in the place of the port, as the source does.
\<close>

definition tcp_client_send :: "world \<Rightarrow> nat \<Rightarrow> string \<Rightarrow> world" where
  "tcp_client_send w idx message =
     (case tcp_clients w idx of
        None \<Rightarrow> w
      | Some cl \<Rightarrow>
          if is_connected cl = 0 \<or> sock cl < 0 then w
          else if send_ok w then w\<lparr>tcp_sent := tcp_sent w @ [(Client_link idx, message)]\<rparr>
          else dstore_client_on_disconnection
                 (w\<lparr>tcp_clients := (tcp_clients w)(idx := Some (cl\<lparr>is_connected := 0\<rparr>))\<rparr>)
                 (sock cl) (ip_address cl) (errno w))"

text \<open>\<open>tcp_server_send\<close> to the accepted socket in slot \<open>idx\<close> (the newline follows the message).\<close>

definition tcp_server_send :: "world \<Rightarrow> nat \<Rightarrow> string \<Rightarrow> int \<times> world" where
  "tcp_server_send w idx message =
     (case tcp_server_ptr w of
        None \<Rightarrow> (- 1, w)
      | Some srv \<Rightarrow>
          if int idx \<ge> max_clients srv then (- 1, w)
          else if client_socks srv idx = - 1 then (- 1, w)
          else if \<not> send_ok w then (- 1, w)
          else (0, w\<lparr>tcp_sent := tcp_sent w @ [(Server_slot idx, message)]\<rparr>))"

text \<open>\<open>dstore_send_message\<close>: 0 when the message was handed to a connected client, else \<open>-1\<close>.\<close>

definition dstore_send_message :: "world \<Rightarrow> nat \<Rightarrow> string \<Rightarrow> int \<times> world" where
  "dstore_send_message w target_node_idx message =
     (if node_count (cluster w) = 0 then (- 1, w)
      else if target_node_idx \<ge> unat (node_count (cluster w)) then (- 1, w)
      else (case tcp_clients w target_node_idx of
              None \<Rightarrow> (- 1, w)
            | Some cl \<Rightarrow>
                if is_connected cl \<noteq> 0 then (0, tcp_client_send w target_node_idx message)
                else (- 1, w)))"

text \<open>
  \<open>tcp_client_init(ip, port, on_receive, on_disconnection, NULL, 0)\<close>: with \<open>errbuf == NULL\<close>
  the function returns \<open>NULL\<close> at its first check. \<open>dstore_init_client\<close> is its only
  caller and always passes \<open>NULL\<close>.
\<close>

definition tcp_client_init_without_errbuf :: "tcp_client_t option" where
  "tcp_client_init_without_errbuf = None"

definition dstore_init_client :: "world \<Rightarrow> nat \<Rightarrow> world" where
  "dstore_init_client w node_idx =
     (if node_count (cluster w) = 0 then w
      else if node_idx \<ge> MAX_NODES then w
      else if node_idx \<ge> unat (node_count (cluster w)) then w
      else if node_id (nodes (cluster w) node_idx) = - 1 then w
      else if tcp_clients w node_idx \<noteq> None then w
      else w\<lparr>tcp_clients := (tcp_clients w)(node_idx := tcp_client_init_without_errbuf)\<rparr>)"

text \<open>One round of the loop in \<open>dstore_replicate_to_followers\<close>.\<close>

definition replicate_step :: "string \<Rightarrow> world \<Rightarrow> nat \<Rightarrow> world" where
  "replicate_step message w i =
     (if (word_of_nat i :: int32) = self_id (cluster w) then w
      else if node_id (nodes (cluster w) i) = - 1 then w
      else
        (let w1 = (if tcp_clients w i = None then dstore_init_client w i else w)
         in case tcp_clients w1 i of
              None \<Rightarrow> w1
            | Some cl \<Rightarrow>
                if is_connected cl \<noteq> 0 then snd (dstore_send_message w1 i message) else w1))"

text \<open>\<open>dstore_replicate_to_followers\<close>; \<open>written >= sizeof(message)\<close> is the length test.\<close>

definition dstore_replicate_to_followers :: "world \<Rightarrow> string \<Rightarrow> string \<Rightarrow> world" where
  "dstore_replicate_to_followers w k v =
     (if node_count (cluster w) = 0 then w
      else
        (let formatted = ''PUT '' @ k @ ''='' @ v
         in if length formatted \<ge> REPLICATION_MESSAGE_BUFFER_SIZE then w
            else foldl (replicate_step formatted) w [0..<unat (node_count (cluster w))]))"

text \<open>\<open>dstore_save_to_rale_db\<close>: one line \<open>key=value\<close> appended to \<open>rale.db\<close> through a 1024-byte buffer.\<close>

definition dstore_save_to_rale_db :: "world \<Rightarrow> string \<Rightarrow> string \<Rightarrow> world" where
  "dstore_save_to_rale_db w k v =
     (let path = snprintf 512 (db_path (dstore_config w) @ ''/rale.db'')
      in if \<not> can_write (fs w) path then w
         else w\<lparr>fs := append_file (fs w) path (snprintf 1024 (k @ ''='' @ v @ [newline]))\<rparr>)"

text \<open>
  The five fields as \<open>write_rale_state_leader\<close>, \<open>dstore_is_current_leader\<close> and
  \<open>dstore_get_current_leader\<close> read them: the first line of the file (up to 255 bytes) is
  cut into tokens at spaces and newlines, token \<open>k\<close> goes through \<open>atoi\<close>, and a field
  whose token is missing keeps its initial \<open>-1\<close>.
\<close>

definition token_field :: "string list \<Rightarrow> nat \<Rightarrow> int32" where
  "token_field toks k = (case nth_token toks k of None \<Rightarrow> - 1 | Some t \<Rightarrow> atoi t)"

definition parse_state_tokens :: "string \<Rightarrow> int32 \<times> int32 \<times> int32 \<times> int32 \<times> int32" where
  "parse_state_tokens line =
     (let toks = strtok_all (c_str line) [CHR '' '', newline]
      in (token_field toks 0, token_field toks 1, token_field toks 2, token_field toks 3,
          token_field toks 4))"

definition dstore_state_path :: "world \<Rightarrow> string" where
  "dstore_state_path w = snprintf 512 (db_path (dstore_config w) @ ''/rale.state'')"

definition write_rale_state_leader :: "world \<Rightarrow> int32 \<Rightarrow> int32 \<Rightarrow> world" where
  "write_rale_state_leader w new_term new_leader =
     (let path = dstore_state_path w;
          (t0, v0, l0, li0, lt0) =
            (case files (fs w) path of
               None \<Rightarrow> (- 1, - 1, - 1, - 1, - 1)
             | Some content \<Rightarrow>
                 (case fgets_first 256 content of
                    None \<Rightarrow> (- 1, - 1, - 1, - 1, - 1)
                  | Some line \<Rightarrow> parse_state_tokens line));
          t1 = (if sint new_term \<ge> 0 then new_term else t0)
      in if \<not> can_write (fs w) path then w
         else w\<lparr>fs := write_file (fs w) path
                 (snprintf 256
                    (state_line (if sint t1 \<ge> 0 then t1 else 0)
                                (if sint v0 \<ge> 0 then v0 else - 1)
                                new_leader
                                (if sint li0 \<ge> 0 then li0 else 0)
                                (if sint lt0 \<ge> 0 then lt0 else 0)))\<rparr>)"

definition dstore_is_current_leader :: "world \<Rightarrow> int" where
  "dstore_is_current_leader w =
     (case files (fs w) (dstore_state_path w) of
        None \<Rightarrow> 0
      | Some content \<Rightarrow>
          (case fgets_first 256 content of
             None \<Rightarrow> 0
           | Some line \<Rightarrow>
               (let (t, v, l, li, lt) = parse_state_tokens line
                in if sint t < 0 \<or> sint v < 0 \<or> sint l < 0 \<or> sint li < 0 \<or> sint lt < 0 then 0
                   else if l = self_id (cluster w) then 1 else 0)))"

definition dstore_get_current_leader :: "world \<Rightarrow> int32" where
  "dstore_get_current_leader w =
     (case files (fs w) (dstore_state_path w) of
        None \<Rightarrow> - 1
      | Some content \<Rightarrow>
          (case fgets_first 256 content of
             None \<Rightarrow> - 1
           | Some line \<Rightarrow>
               (let (t, v, l, li, lt) = parse_state_tokens line
                in if sint t < 0 \<or> sint v < 0 \<or> sint l < 0 \<or> sint li < 0 \<or> sint lt < 0 then - 1
                   else l)))"

definition dstore_broadcast_leader_snapshot :: "world \<Rightarrow> int32 \<Rightarrow> int32 \<Rightarrow> world" where
  "dstore_broadcast_leader_snapshot w t l =
     (let msg = snprintf 128 (''LEADER '' @ show_int32 (if sint t \<ge> 0 then t else 0) @ '' '' @ show_int32 l);
          w1 = (if tcp_server_ptr w \<noteq> None
                then foldl (\<lambda>w' i. if client_socket_to_node w' i \<noteq> - 1
                                    then snd (tcp_server_send w' i msg) else w')
                       w [0..<TCP_SERVER_MAX_CLIENTS]
                else w)
      in foldl (\<lambda>w' i. case tcp_clients w' i of
                          None \<Rightarrow> w'
                        | Some cl \<Rightarrow> if is_connected cl = 1 then tcp_client_send w' i msg else w')
           w1 [0..<unat (node_count (cluster w1))])"

text \<open>
  \<open>dstore_handle_propagated_add\<close>: the tokens after the 13th character, \<open>name\<close> through a
  64-byte and \<open>ip\<close> through a 16-byte buffer.
\<close>

definition dstore_handle_propagated_add :: "world \<Rightarrow> string \<Rightarrow> int \<times> world" where
  "dstore_handle_propagated_add w command =
     (let toks = strtok_all (drop 13 command) [CHR '' ''];
          new_id = token_field toks 0;
          nm = (case nth_token toks 1 of None \<Rightarrow> [] | Some t \<Rightarrow> take 63 t);
          addr = (case nth_token toks 2 of None \<Rightarrow> [] | Some t \<Rightarrow> take 15 t);
          rport = (case nth_token toks 3 of None \<Rightarrow> (0 :: uint16) | Some t \<Rightarrow> ucast (atoi t));
          dport = (case nth_token toks 4 of None \<Rightarrow> (0 :: uint16) | Some t \<Rightarrow> ucast (atoi t))
      in if sint new_id \<ge> 0 \<and> length nm > 0 \<and> length addr > 0 \<and> unat rport > 0 \<and> unat dport > 0
         then (let (ret, w') = cluster_add_node w new_id (Some nm) (Some addr) rport dport
               in if ret = 0 then (0, w') else (- 1, w'))
         else (- 1, w))"

text \<open>\<open>dstore_handle_propagated_remove\<close>: the id is read from the 16th character on.\<close>

definition dstore_handle_propagated_remove :: "world \<Rightarrow> string \<Rightarrow> int \<times> world" where
  "dstore_handle_propagated_remove w command =
     (let node_str = drop 16 command;
          rid = (case node_str of
                   [] \<Rightarrow> - 1
                 | c # _ \<Rightarrow> if is_digit c then atoi node_str else - 1)
      in if sint rid \<ge> 0
         then (let (ret, w') = cluster_remove_node w rid
               in if ret = 0 then (0, w') else (- 1, w'))
         else (- 1, w))"

text \<open>The two integers of \<open>LEADER_ELECTED <term> <leader_id>\<close> and \<open>LEADER <term> <leader_id>\<close>.\<close>

definition parse_term_leader :: "string \<Rightarrow> int32 \<times> int32" where
  "parse_term_leader params =
     (case strchr params (CHR '' '') of
        None \<Rightarrow> (- 1, - 1)
      | Some (_, rest) \<Rightarrow> (atoi params, atoi rest))"

text \<open>
  The checks of the \<open>FORWARD_PUT\<close> block that end in \<open>return\<close>. When none of them fires the
  block only fills \<open>key_buf\<close> and \<open>value_buf\<close> and control goes on to the checks below it.
\<close>

definition forward_put_returns :: "string \<Rightarrow> bool" where
  "forward_put_returns kv_part =
     (case strchr kv_part (CHR ''='') of
        None \<Rightarrow> True
      | Some (k, v) \<Rightarrow> length k = 0 \<or> length k \<ge> MAX_KEY_SIZE \<or> length v \<ge> MAX_VALUE_SIZE)"

text \<open>The tail of \<open>dstore_put_from_command\<close>, from the leader check on.\<close>

definition put_as_leader_or_forward :: "world \<Rightarrow> string \<Rightarrow> string \<Rightarrow> world" where
  "put_as_leader_or_forward w key_buf value_buf =
     (if dstore_is_current_leader w = 0
      then (let current_leader = dstore_get_current_leader w
            in if current_leader \<noteq> - 1 \<and> current_leader \<noteq> self_id (cluster w)
               then (let leader_idx = find_node_index_by_id w current_leader
                     in if leader_idx \<noteq> MAX_NODES \<and> connection_status w leader_idx = 1
                        then snd (dstore_send_message w leader_idx
                                    (snprintf 512 (''FORWARD_PUT '' @ key_buf @ ''='' @ value_buf)))
                        else w)
               else w)
      else (let (db_ret, w1) = db_insert_w w key_buf value_buf
            in if db_ret < 0 then w1
               else dstore_replicate_to_followers (dstore_save_to_rale_db w1 key_buf value_buf)
                      key_buf value_buf))"

text \<open>\<open>dstore_put_from_command\<close>: the prefix tests in the order of the source.\<close>

definition dstore_put_from_command :: "world \<Rightarrow> string option \<Rightarrow> world" where
  "dstore_put_from_command w command =
     (if node_count (cluster w) = 0 then w
      else case command of
        None \<Rightarrow> w
      | Some cmd \<Rightarrow>
          if starts_with cmd ''LEADER_ELECTED ''
          then (let (t, l) = parse_term_leader (drop 15 cmd)
                in if sint t \<ge> 0 \<and> sint l \<ge> 0
                   then (let key_buf = snprintf MAX_KEY_SIZE (''rale_leader_term_'' @ show_int32 t);
                             value_buf = snprintf MAX_VALUE_SIZE (show_int32 l);
                             w1 = snd (db_insert_w w key_buf value_buf);
                             w2 = write_rale_state_leader w1 t l
                         in dstore_broadcast_leader_snapshot w2 t l)
                   else w)
          else if starts_with cmd ''LEADER ''
          then (let (t, l) = parse_term_leader (drop 7 cmd)
                in if sint t \<ge> 0 \<and> sint l \<ge> 0 then write_rale_state_leader w t l else w)
          else if starts_with cmd ''FORWARD_PUT '' \<and> forward_put_returns (drop 12 cmd) then w
          else if starts_with cmd ''PROPAGATE_ADD '' then snd (dstore_handle_propagated_add w cmd)
          else if starts_with cmd ''PROPAGATE_REMOVE '' then snd (dstore_handle_propagated_remove w cmd)
          else if \<not> starts_with cmd ''PUT '' then w
          else (case strchr (drop 4 cmd) (CHR ''='') of
                  None \<Rightarrow> w
                | Some (k, v) \<Rightarrow>
                    if length k = 0 then w
                    else if length k \<ge> MAX_KEY_SIZE then w
                    else if length v \<ge> MAX_VALUE_SIZE then w
                    else put_as_leader_or_forward w k v))"

section \<open>rale_proto.c: the message handler\<close>

text \<open>\<open>current_rale_state\<close> as \<open>rale_proto_init\<close> leaves it: the defaults, then \<open>rale_state_load\<close>.\<close>

definition rale_proto_init_state :: "world \<Rightarrow> rale_state_t" where
  "rale_proto_init_state w = snd (rale_state_load w (rale_initial_state w))"










section \<open>Sample states\<close>

text \<open>
  A node right after start-up, seen by node 1: an initialised, empty registry with no
  state file configured, an empty table, database path \<open>/db\<close> without files, no TCP
  server or clients, a follower in term 0, and an environment in which every call
  succeeds.
\<close>

definition sample_config :: config_t where
  "sample_config =
     \<lparr>db_path = ''/db'', node_db_path = [], config_node_id = 1,
      keep_alive_interval = 0, keep_alive_timeout = 0\<rparr>"

definition idle_world :: world where
  "idle_world =
     \<lparr>fs = \<lparr>files = (\<lambda>p. None), can_write = (\<lambda>p. True)\<rparr>,
      clock = 0, rand_value = 0, alloc_ok = True, send_ok = True, errno = 0,
      udp_client_ok = (\<lambda>p. True), udp_sendto_ok = (\<lambda>a p. True),
      cluster_state_file = [], cluster_initialized = True, cluster = empty_cluster,
      hash_table = Some hash_init,
      dstore_config = sample_config,
      tcp_server_ptr = None, tcp_clients = (\<lambda>i. None), connection_status = (\<lambda>i. 0),
      client_socket_to_node = (\<lambda>i. - 1), tcp_sent = [],
      rale_config = sample_config,
      current_rale_state =
        \<lparr>current_term = 0, voted_for = - 1, leader_id = - 1, role = rale_role_follower,
         last_log_index = 0, last_log_term = 0, commit_index = 0, last_applied = 0,
         last_heartbeat = 0, election_deadline = 0\<rparr>,
      votes_received = 0, election_active = 0, next_heartbeat_at = 0, next_vote_request_at = 0,
      udp_sent = []\<rparr>"

definition sample_node :: "int32 \<Rightarrow> node_t" where
  "sample_node i = zero_node\<lparr>node_id := i, name := ''n'', ip := ''127.0.0.1'',
                             rale_port := 5000, dstore_port := 6000\<rparr>"

text \<open>The registry of node 1 in a cluster of the nodes 1, 2 and 3, in this order.\<close>

definition three_nodes :: cluster_t where
  "three_nodes =
     \<lparr>nodes = (\<lambda>i. if i = 0 then sample_node 1 else if i = 1 then sample_node 2
                    else if i = 2 then sample_node 3 else zero_node),
      node_count = 3, self_id = 1\<rparr>"

text \<open>Election states: term 3, no vote recorded, node 1 known as leader.\<close>

definition sample_state :: rale_state_t where
  "sample_state = (current_rale_state idle_world)\<lparr>current_term := 3, voted_for := - 1, leader_id := 1\<rparr>"



text \<open>
  Node 1 of the three-node cluster with \<open>/db/rale.state\<close> as \<open>rale_state_save\<close> writes
  \<open>sample_state\<close>: the file names node 1 as leader and records no vote.
\<close>

definition unvoted_leader_world :: world where
  "unvoted_leader_world =
     idle_world\<lparr>fs := write_file (fs idle_world) ''/db/rale.state'' (rale_state_line sample_state),
                cluster := three_nodes\<rparr>"

text \<open>
  Node 1 of the three-node cluster as elected leader of term 3 (\<open>/db/rale.state\<close> holds
  \<open>3 1 1 0 0\<close>).
\<close>

definition elected_world :: world where
  "elected_world =
     idle_world\<lparr>fs := write_file (fs idle_world) ''/db/rale.state'' (state_line 3 1 1 0 0),
                cluster := three_nodes\<rparr>"

text \<open>
  The state of \<open>tcp_clients[]\<close> that the program can produce. The array is static, so it
  starts with \<open>NULL\<close> in every slot, and each of its assignments stores \<open>NULL\<close>: the
  result of \<open>tcp_client_init\<close> called without \<open>errbuf\<close> in \<open>dstore_init_client\<close>, and the
  clearing of a slot in \<open>dstore_client_on_disconnection\<close> and \<open>dstore_finit\<close>.
\<close>

definition no_outbound_clients :: "world \<Rightarrow> bool" where
  "no_outbound_clients w = (\<forall>i. tcp_clients w i = None)"



text \<open>
  A \<open>cluster.state\<close> file whose \<open>node_count\<close> line carries no number, between a \<open>self_id\<close>
  line and the five lines of one node.
\<close>

definition corrupt_state_text :: string where
  "corrupt_state_text =
     ''self_id=3'' @ [newline] @ ''node_count=abc'' @ [newline] @
     ''node[0].id=7'' @ [newline] @ ''node[0].name=n7'' @ [newline] @
     ''node[0].ip=10.0.0.7'' @ [newline] @ ''node[0].rale_port=5007'' @ [newline] @
     ''node[0].dstore_port=6007'' @ [newline]"

text \<open>A file of lines that \<open>cluster_load_state\<close> skips: unknown keys and no \<open>=\<close>.\<close>

definition unknown_state_text :: string where
  "unknown_state_text = ''color=blue'' @ [newline] @ ''no separator'' @ [newline]"

text \<open>
  Node 1 with the three-node registry in memory and a configured state file
  \<open>/db/cluster.state\<close> of the given content.
\<close>

definition state_file_world :: "string \<Rightarrow> world" where
  "state_file_world content =
     idle_world\<lparr>cluster_state_file := ''/db/cluster.state'',
                fs := write_file (fs idle_world) ''/db/cluster.state'' content,
                cluster := three_nodes\<rparr>"

text \<open>The keys that the \<open>if\<close>/\<open>else if\<close> chain of \<open>cluster_load_state\<close> acts on.\<close>

definition known_state_key :: "string \<Rightarrow> bool" where
  "known_state_key k =
     (k = ''self_id'' \<or> k = ''node_count'' \<or>
      (starts_with k ''node['' \<and>
       (strstr k ''].id'' \<or> strstr k ''].name'' \<or> strstr k ''].ip'' \<or>
        strstr k ''].rale_port'' \<or> strstr k ''].dstore_port'')))"

text \<open>The lines of the state file that pass the three length and format tests and carry a known key.\<close>

definition recognised_line :: "string \<Rightarrow> bool" where
  "recognised_line raw =
     (case split_state_line raw of None \<Rightarrow> False | Some (k, v) \<Rightarrow> known_state_key k)"

section \<open>Properties of the key-value index\<close>

lemma hash_of_a: "hash ''a'' = 97"
  by (simp add: hash_def HASH_SIZE_def char_as_uint_def)

lemma hash_func_of_a: "hash_func ''a'' = 518"
  by (simp add: hash_func_def HASH_SIZE_def char_as_uint_def)

text \<open>
  C1. \<open>db_insert(k, v)\<close> followed by \<open>db_get(k)\<close> should return \<open>v\<close>. On the empty table,
  inserting key \<open>a\<close> with value \<open>x\<close> succeeds, and the following \<open>db_get\<close> of \<open>a\<close> into a
  1024-byte buffer reports the key as not found: \<open>hash_put\<close> files the entry in bucket
  \<open>hash(a) = 97\<close>, \<open>hash_get\<close> searches bucket \<open>hash_func(a) = 518\<close>.
\<close>

theorem db_insert_then_get_misses:
  "fst (db_insert True (Some hash_init) (Some ''a'') (Some ''x'')) = 0 \<and>
   db_get (snd (db_insert True (Some hash_init) (Some ''a'') (Some ''x''))) (Some ''a'') 1024
     = (- 1, None)"
  by (simp add: db_insert_def db_get_def hash_put_def hash_get_def hash_init_def
      hash_of_a hash_func_of_a DB_SUCCESS_def MAX_KEY_SIZE_def MAX_VALUE_SIZE_def strlcpy_def)

lemma put_chain_None_iff: "put_chain k v es = None \<longleftrightarrow> k \<notin> key ` set es"
  by (induction es) (auto split: option.splits)

lemma delete_chain_None_iff: "delete_chain k es = None \<longleftrightarrow> k \<notin> key ` set es"
  by (induction es) (auto split: option.splits)

text \<open>
  C9. For non-\<open>NULL\<close> key and value \<open>db_insert\<close> returns 0 whatever \<open>hash_put\<close> does, and
  \<open>db_delete\<close> returns 0 whatever \<open>hash_delete\<close> does. In particular the result is 0 when
  \<open>hash_put\<close> fails with \<open>-1\<close> and stores nothing (key of 255 bytes or more, value of 1024
  bytes or more, or no memory for a new entry), and when \<open>hash_delete\<close> fails with \<open>-1\<close>
  because the key is in no bucket.
\<close>

theorem db_wrappers_discard_failures:
  "fst (db_insert mem_ok db (Some k) (Some v)) = 0 \<and>
   fst (db_delete db (Some k)) = 0 \<and>
   (length k \<ge> 255 \<or> length v \<ge> 1024 \<longrightarrow>
      hash_put mem_ok db (Some k) (Some v) = (- 1, db) \<and>
      db_insert mem_ok db (Some k) (Some v) = (0, db)) \<and>
   (db = Some t \<and> (\<forall>i. k \<notin> key ` set (t i)) \<and> \<not> mem_ok \<longrightarrow>
      hash_put mem_ok db (Some k) (Some v) = (- 1, db) \<and>
      db_insert mem_ok db (Some k) (Some v) = (0, db)) \<and>
   (db = Some t \<and> (\<forall>i. k \<notin> key ` set (t i)) \<longrightarrow>
      hash_delete db (Some k) = (- 1, db) \<and>
      db_delete db (Some k) = (0, db))"
proof -
  have ret: "fst (db_insert mem_ok db (Some k) (Some v)) = 0" "fst (db_delete db (Some k)) = 0"
    by (simp_all add: db_insert_def db_delete_def DB_SUCCESS_def)
  have long: "hash_put mem_ok db (Some k) (Some v) = (- 1, db)"
    if "length k \<ge> 255 \<or> length v \<ge> 1024"
    using that by (cases db) (auto simp add: hash_put_def MAX_KEY_SIZE_def MAX_VALUE_SIZE_def)
  have nomem: "hash_put mem_ok db (Some k) (Some v) = (- 1, db)"
    if "db = Some t" "\<forall>i. k \<notin> key ` set (t i)" "\<not> mem_ok"
  proof -
    from that(2) have "put_chain k v (t (hash k)) = None"
      by (simp add: put_chain_None_iff)
    with that(1,3) show ?thesis
      by (simp add: hash_put_def)
  qed
  have absent: "hash_delete db (Some k) = (- 1, db)"
    if "db = Some t" "\<forall>i. k \<notin> key ` set (t i)"
  proof -
    from that(2) have "delete_chain k (t (hash k)) = None"
      by (simp add: delete_chain_None_iff)
    with that(1) show ?thesis
      by (simp add: hash_delete_def)
  qed
  show ?thesis
    using ret long nomem absent
    by (simp add: db_insert_def db_delete_def DB_SUCCESS_def)
qed

theorem db_wrappers_discard_failures_witness:
  "(length (replicate 255 (CHR ''k'')) \<ge> 255 \<or> length ''x'' \<ge> 1024) \<and>
   (\<forall>i. replicate 255 (CHR ''k'') \<notin> key ` set (hash_init i)) \<and>
   hash_put False (Some hash_init) (Some (replicate 255 (CHR ''k''))) (Some ''x'')
     = (- 1, Some hash_init) \<and>
   db_insert False (Some hash_init) (Some (replicate 255 (CHR ''k''))) (Some ''x'')
     = (0, Some hash_init) \<and>
   hash_delete (Some hash_init) (Some (replicate 255 (CHR ''k''))) = (- 1, Some hash_init) \<and>
   db_delete (Some hash_init) (Some (replicate 255 (CHR ''k''))) = (0, Some hash_init)"
  using db_wrappers_discard_failures
    [of False "Some hash_init" "replicate 255 (CHR ''k'')" "''x''" hash_init]
  by (simp add: hash_init_def)

section \<open>Decimal text and tokens\<close>

lemma below_ten:
  "d < 10 \<Longrightarrow>
   d = 0 \<or> d = 1 \<or> d = 2 \<or> d = 3 \<or> d = 4 \<or> d = 5 \<or> d = 6 \<or> d = 7 \<or> d = 8 \<or> d = (9::nat)"
  by arith

lemma digit_char_is_digit: "d < 10 \<Longrightarrow> is_digit (digit_char d)"
  using below_ten [of d] by (auto simp add: digit_char_def is_digit_def)

lemma digit_val_digit_char: "d < 10 \<Longrightarrow> digit_val (digit_char d) = int d"
  using below_ten [of d] by (auto simp add: digit_char_def digit_val_def)

lemma is_digit_not_space: "is_digit c \<Longrightarrow> \<not> is_space c"
  by (auto simp add: is_digit_def is_space_def)

lemma is_digit_not_sign: "is_digit c \<Longrightarrow> c \<noteq> CHR ''-'' \<and> c \<noteq> CHR ''+'' \<and> c \<noteq> CHR '' '' \<and> c \<noteq> newline"
  by (auto simp add: is_digit_def newline_def)

lemma show_nat_digits: "\<forall>c\<in>set (show_nat n). is_digit c"
proof (induction n rule: show_nat.induct)
  case (1 n)
  show ?case
  proof (cases "n < 10")
    case True
    then show ?thesis
      by (subst show_nat.simps) (simp add: digit_char_is_digit)
  next
    case False
    then have "\<forall>c\<in>set (show_nat (n div 10)). is_digit c"
      using 1 by simp
    with False show ?thesis
      by (subst show_nat.simps) (simp add: digit_char_is_digit)
  qed
qed

lemma show_nat_not_Nil: "show_nat n \<noteq> []"
  by (subst show_nat.simps) simp

lemma parse_digits_only: "\<forall>c\<in>set ds. is_digit c \<Longrightarrow> parse_digits acc (ds @ rest) = parse_digits (parse_digits acc ds) rest"
  by (induction ds arbitrary: acc) auto

lemma parse_digits_show_nat_plain:
  "parse_digits acc (show_nat n) = acc * 10 ^ length (show_nat n) + int n"
proof (induction n arbitrary: acc rule: show_nat.induct)
  case (1 n)
  show ?case
  proof (cases "n < 10")
    case True
    then show ?thesis
      by (subst (1 2) show_nat.simps) (simp add: digit_char_is_digit digit_val_digit_char)
  next
    case False
    have d: "is_digit (digit_char (n mod 10))"
      by (simp add: digit_char_is_digit)
    have len: "length (show_nat n) = Suc (length (show_nat (n div 10)))"
      using False by (subst show_nat.simps) simp
    have "parse_digits acc (show_nat n) =
          parse_digits acc (show_nat (n div 10) @ [digit_char (n mod 10)])"
      using False by (subst show_nat.simps) simp
    also have "\<dots> = parse_digits (parse_digits acc (show_nat (n div 10))) [digit_char (n mod 10)]"
      by (simp add: parse_digits_only show_nat_digits)
    also have "\<dots> = (acc * 10 ^ length (show_nat (n div 10)) + int (n div 10)) * 10 + int (n mod 10)"
      using False 1 [of acc] by (simp add: d digit_val_digit_char)
    also have "\<dots> = acc * 10 ^ length (show_nat n) + int n"
      by (simp add: len algebra_simps zdiv_int zmod_int)
    finally show ?thesis .
  qed
qed

lemma parse_digits_stop: "rest = [] \<or> \<not> is_digit (hd rest) \<Longrightarrow> parse_digits a rest = a"
  by (cases rest) auto

lemma parse_digits_show_nat:
  "rest = [] \<or> \<not> is_digit (hd rest) \<Longrightarrow> parse_digits 0 (show_nat n @ rest) = int n"
  by (simp add: parse_digits_only show_nat_digits parse_digits_show_nat_plain parse_digits_stop)

lemma drop_digits_show_nat:
  "rest = [] \<or> \<not> is_digit (hd rest) \<Longrightarrow> drop_digits (ds @ rest) = rest" if "\<forall>c\<in>set ds. is_digit c"
  using that by (induction ds) (auto, cases rest, auto)

lemma signed_digits_show_int:
  assumes "rest = [] \<or> \<not> is_digit (hd rest)"
  shows "signed_digits (show_int i @ rest) = i"
proof (cases "i < 0")
  case True
  then show ?thesis
    using assms by (simp add: show_int_def signed_digits_def parse_digits_show_nat)
next
  case False
  obtain c cs where cs: "show_nat (nat i) = c # cs"
    using show_nat_not_Nil [of "nat i"] by (cases "show_nat (nat i)") auto
  then have "is_digit c"
    using show_nat_digits [of "nat i"] by simp
  then have "c \<noteq> CHR ''-''" "c \<noteq> CHR ''+''"
    using is_digit_not_sign by blast+
  moreover have "parse_digits 0 (c # cs @ rest) = i"
    using parse_digits_show_nat [OF assms, of "nat i"] False cs by simp
  ultimately show ?thesis
    using False cs by (simp add: show_int_def signed_digits_def)
qed

lemma show_int_chars: "\<forall>c\<in>set (show_int i). c = CHR ''-'' \<or> is_digit c"
  using show_nat_digits by (auto simp add: show_int_def)

lemma sign_or_digit_plain:
  "c = CHR ''-'' \<or> is_digit c \<Longrightarrow>
   \<not> is_space c \<and> c \<noteq> CHR '' '' \<and> c \<noteq> newline \<and> c \<noteq> CHR 0x00 \<and> c \<noteq> CHR ''=''"
  by (auto simp add: is_space_def newline_def is_digit_def)

lemma show_int_no_space:
  "\<forall>c\<in>set (show_int i). \<not> is_space c \<and> c \<noteq> CHR '' '' \<and> c \<noteq> newline \<and> c \<noteq> CHR 0x00"
  using show_int_chars sign_or_digit_plain by blast

lemma show_int_not_Nil: "show_int i \<noteq> []"
  by (simp add: show_int_def show_nat_not_Nil)

lemma dropWhile_space_show_int: "dropWhile is_space (show_int i @ rest) = show_int i @ rest"
  using show_int_no_space [of i] show_int_not_Nil [of i]
  by (cases "show_int i") auto

lemma sint_range32: "- (2 ^ 31) \<le> sint (w :: int32) \<and> sint w < 2 ^ 31"
  using sint_greater_eq [of w] sint_less [of w] by simp

lemma atoi_show_int32:
  assumes "rest = [] \<or> \<not> is_digit (hd rest)"
  shows "atoi (show_int32 w @ rest) = w"
proof -
  have "signed_digits (show_int (sint w) @ rest) = sint w"
    by (rule signed_digits_show_int [OF assms])
  moreover have "max LONG_MIN (min LONG_MAX (sint w)) = sint w"
    using sint_range32 [of w] by (simp add: LONG_MIN_def LONG_MAX_def)
  ultimately show ?thesis
    by (simp add: atoi_def show_int32_def dropWhile_space_show_int)
qed

lemma scan_int_negative:
  "is_digit d \<Longrightarrow>
   scan_int (CHR ''-'' # d # ds) =
     Some (word_of_int (max LONG_MIN (min LONG_MAX (signed_digits (CHR ''-'' # d # ds)))),
           drop_digits (d # ds))"
  by (simp add: scan_int_def is_space_def)

lemma scan_int_positive:
  "is_digit d \<Longrightarrow>
   scan_int (d # ds) =
     Some (word_of_int (max LONG_MIN (min LONG_MAX (signed_digits (d # ds)))),
           drop_digits (d # ds))"
  using is_digit_not_space [of d] is_digit_not_sign [of d]
  by (simp add: scan_int_def)

lemma scan_int_show_int32:
  assumes "rest = [] \<or> \<not> is_digit (hd rest)"
  shows "scan_int (show_int32 w @ rest) = Some (w, rest)"
proof -
  let ?i = "sint w"
  have val: "word_of_int (max LONG_MIN (min LONG_MAX (signed_digits (show_int ?i @ rest)))) = w"
    using sint_range32 [of w]
    by (simp add: signed_digits_show_int [OF assms] LONG_MIN_def LONG_MAX_def)
  obtain d ds where ds: "show_nat (nat \<bar>?i\<bar>) = d # ds"
    using show_nat_not_Nil [of "nat \<bar>?i\<bar>"] by (cases "show_nat (nat \<bar>?i\<bar>)") auto
  have dig: "\<forall>c\<in>set (d # ds). is_digit c"
    using show_nat_digits [of "nat \<bar>?i\<bar>"] ds by simp
  then have d: "is_digit d"
    by simp
  have rest: "drop_digits (d # ds @ rest) = rest"
    using drop_digits_show_nat [OF dig assms] by simp
  show ?thesis
  proof (cases "?i < 0")
    case True
    then have shape: "show_int ?i @ rest = CHR ''-'' # d # ds @ rest"
      using ds by (simp add: show_int_def abs_if)
    show ?thesis
      unfolding show_int32_def shape
      using val [unfolded shape] rest scan_int_negative [OF d, of "ds @ rest"] by simp
  next
    case False
    then have shape: "show_int ?i @ rest = d # ds @ rest"
      using ds by (simp add: show_int_def abs_if)
    show ?thesis
      unfolding show_int32_def shape
      using val [unfolded shape] rest scan_int_positive [OF d, of "ds @ rest"] by simp
  qed
qed

lemma scan_int_skip_space: "scan_int (CHR '' '' # s) = scan_int s"
  by (simp add: scan_int_def is_space_def)

lemma not_digit_space: "\<not> is_digit (CHR '' '')" "\<not> is_digit newline"
  by (simp_all add: is_digit_def newline_def)

lemma scan_five_state_line: "scan_five (state_line t v l li lt) = Some (t, v, l, li, lt)"
proof -
  have 1: "scan_int (show_int32 x @ CHR '' '' # r) = Some (x, CHR '' '' # r)" for x r
    by (rule scan_int_show_int32) (simp add: not_digit_space)
  have 2: "scan_int (show_int32 x @ [newline]) = Some (x, [newline])" for x
    by (rule scan_int_show_int32) (simp add: not_digit_space)
  show ?thesis
    by (simp add: scan_five_def state_line_def 1 2 scan_int_skip_space)
qed

lemma length_show_nat: "0 < k \<Longrightarrow> n < 10 ^ k \<Longrightarrow> length (show_nat n) \<le> k"
proof (induction n arbitrary: k rule: show_nat.induct)
  case (1 n)
  show ?case
  proof (cases "n < 10")
    case True
    with 1(2) show ?thesis
      by (subst show_nat.simps) simp
  next
    case False
    then obtain j where k: "k = Suc j" "0 < j"
      using 1(2,3) by (cases k; cases "k - 1") auto
    have "n div 10 < 10 ^ j"
      using 1(3) k by (simp add: less_mult_imp_div_less mult.commute)
    then have "length (show_nat (n div 10)) \<le> j"
      using 1(1) [OF False k(2)] by simp
    with False k show ?thesis
      by (subst show_nat.simps) simp
  qed
qed

lemma length_show_int32: "length (show_int32 w) \<le> 11"
proof -
  have "nat \<bar>sint w\<bar> < 10 ^ 10"
    using sint_range32 [of w] by (simp add: abs_if) linarith
  then have "length (show_nat (nat \<bar>sint w\<bar>)) \<le> 10"
    using length_show_nat [of 10 "nat \<bar>sint w\<bar>"] by simp
  then show ?thesis
    by (auto simp add: show_int32_def show_int_def abs_if split: if_splits)
qed

lemma show_int32_plain:
  "c \<in> set (show_int32 w) \<Longrightarrow> c \<noteq> CHR '' '' \<and> c \<noteq> newline \<and> c \<noteq> CHR 0x00 \<and> c \<noteq> CHR ''=''"
  using show_int_chars [of "sint w"] sign_or_digit_plain [of c]
  by (auto simp add: show_int32_def)

lemma show_int32_not_Nil: "show_int32 w \<noteq> []"
  by (simp add: show_int32_def show_int_not_Nil)

lemma fgets_acc_line:
  "newline \<notin> set s \<Longrightarrow> length s < k \<Longrightarrow>
   fgets_acc n k cur (s @ newline # rest) = (rev cur @ s @ [newline]) # fgets_acc n n [] rest"
  by (induction s arbitrary: k cur) auto

lemma fgets_first_line:
  "newline \<notin> set s \<Longrightarrow> length s + 1 < bufsize \<Longrightarrow>
   fgets_first bufsize (s @ newline # rest) = Some (s @ [newline])"
  using fgets_acc_line [of s "bufsize - 1" "bufsize - 1" "[]" rest]
  by (simp add: fgets_first_def fgets_all_def)

lemma c_str_plain: "CHR 0x00 \<notin> set s \<Longrightarrow> c_str s = s"
  by (auto simp add: c_str_def)

lemma strtok_acc_token:
  "\<forall>c\<in>set tok. c \<notin> set delims \<Longrightarrow> d \<in> set delims \<Longrightarrow> cur @ tok \<noteq> [] \<Longrightarrow>
   strtok_acc delims cur (tok @ d # rest) = (rev cur @ tok) # strtok_acc delims [] rest"
  by (induction tok arbitrary: cur) auto

lemma strtok_state_line:
  "strtok_all (state_line t v l li lt) [CHR '' '', newline] =
     [show_int32 t, show_int32 v, show_int32 l, show_int32 li, show_int32 lt]"
proof -
  have tok: "strtok_acc [CHR '' '', newline] [] (show_int32 x @ d # rest) =
             show_int32 x # strtok_acc [CHR '' '', newline] [] rest"
    if "d = CHR '' '' \<or> d = newline" for x d rest
    using strtok_acc_token [of "show_int32 x" "[CHR '' '', newline]" d "[]" rest]
      show_int32_plain [of _ x] show_int32_not_Nil [of x] that
    by auto
  show ?thesis
    by (simp add: strtok_all_def state_line_def tok)
qed

lemma state_line_plain: "CHR 0x00 \<notin> set (state_line t v l li lt)"
  using show_int32_plain by (auto simp add: state_line_def newline_def)

lemma parse_state_tokens_state_line:
  "parse_state_tokens (state_line t v l li lt) = (t, v, l, li, lt)"
  using atoi_show_int32 [of "[]"]
  by (simp add: parse_state_tokens_def c_str_plain state_line_plain strtok_state_line
      token_field_def nth_token_def)

lemma fgets_first_state_line:
  "fgets_first 256 (state_line t v l li lt) = Some (state_line t v l li lt)"
proof -
  let ?s = "show_int32 t @ '' '' @ show_int32 v @ '' '' @ show_int32 l @ '' '' @ show_int32 li @
            '' '' @ show_int32 lt"
  have "newline \<notin> set ?s"
    using show_int32_plain by (auto simp add: newline_def)
  moreover have "length ?s + 1 < 256"
    using length_show_int32 [of t] length_show_int32 [of v] length_show_int32 [of l]
      length_show_int32 [of li] length_show_int32 [of lt]
    by simp
  ultimately have "fgets_first 256 (?s @ newline # []) = Some (?s @ [newline])"
    by (rule fgets_first_line)
  then show ?thesis
    by (simp add: state_line_def)
qed









lemma show_small: "show_int32 0 = ''0''" "show_int32 1 = ''1''" "show_int32 2 = ''2''"
  "show_int32 3 = ''3''" "show_int32 5 = ''5''" "show_int32 (- 1) = ''-1''"
  by (simp_all add: show_int32_def show_int_def show_nat.simps digit_char_def)

lemma state_line_elected: "state_line 3 1 1 0 0 = ''3 1 1 0 0'' @ [newline]"
  by (simp add: state_line_def show_small)

lemma upt_3: "[0..<3] = [0, 1, 2]"
  by (simp add: upt_rec)

section \<open>Persistence of the election state\<close>

text \<open>
  C8, as amended. Let \<open>rale_state_save\<close> write a state \<open>st\<close> successfully, with
  \<open>current_term\<close>, \<open>last_log_index\<close> and \<open>last_log_term\<close> at least 0 and \<open>voted_for\<close> and
  \<open>leader_id\<close> at least \<open>-1\<close>. Then in any later world with the same files and the same
  configuration, \<open>rale_state_load\<close> on the defaults of \<open>rale_proto_init\<close> returns 0 and
  yields the five persisted fields of \<open>st\<close> (\<open>-1\<close> included for \<open>voted_for\<close> and \<open>leader_id\<close>).
\<close>

theorem rale_state_roundtrip:
  assumes "rale_state_save w st = (0, w')"
    and "fs w2 = fs w'" and "rale_config w2 = rale_config w"
    and "0 \<le> sint (current_term st)" and "- 1 \<le> sint (voted_for st)"
    and "- 1 \<le> sint (leader_id st)" and "0 \<le> sint (last_log_index st)"
    and "0 \<le> sint (last_log_term st)"
  shows "fst (rale_state_load w2 (rale_initial_state w2)) = 0 \<and>
         current_term (rale_proto_init_state w2) = current_term st \<and>
         voted_for (rale_proto_init_state w2) = voted_for st \<and>
         leader_id (rale_proto_init_state w2) = leader_id st \<and>
         last_log_index (rale_proto_init_state w2) = last_log_index st \<and>
         last_log_term (rale_proto_init_state w2) = last_log_term st"
proof -
  obtain base where base: "rale_base_path (rale_config w) = Some base"
    using assms(1) by (cases "rale_base_path (rale_config w)") (simp_all add: rale_state_save_def)
  have content: "files (fs w2) (snprintf 512 (base @ ''/rale.state'')) = Some (rale_state_line st)"
    using assms(1,2) base
    by (auto simp add: rale_state_save_def write_file_def Let_def split: if_splits)
  have neg: "x = - 1" if "- 1 \<le> sint x" "\<not> 0 \<le> sint x" for x :: int32
  proof -
    from that have "sint x = - 1" by simp
    then have "word_of_int (sint x) = (word_of_int (- 1) :: int32)" by simp
    then show ?thesis by simp
  qed
  show ?thesis
    using assms(3-) base content neg [of "voted_for st"] neg [of "leader_id st"]
    by (auto simp add: rale_proto_init_state_def rale_state_load_def rale_state_line_def
        scan_five_state_line rale_initial_state_def Let_def)
qed

theorem rale_state_roundtrip_witness:
  "rale_state_save idle_world sample_state = (0, snd (rale_state_save idle_world sample_state)) \<and>
   0 \<le> sint (current_term sample_state) \<and> - 1 \<le> sint (voted_for sample_state) \<and>
   - 1 \<le> sint (leader_id sample_state) \<and> 0 \<le> sint (last_log_index sample_state) \<and>
   0 \<le> sint (last_log_term sample_state) \<and>
   current_term (rale_proto_init_state (snd (rale_state_save idle_world sample_state))) = 3 \<and>
   voted_for (rale_proto_init_state (snd (rale_state_save idle_world sample_state))) = - 1 \<and>
   leader_id (rale_proto_init_state (snd (rale_state_save idle_world sample_state))) = 1 \<and>
   last_log_index (rale_proto_init_state (snd (rale_state_save idle_world sample_state))) = 0 \<and>
   last_log_term (rale_proto_init_state (snd (rale_state_save idle_world sample_state))) = 0"
proof -
  have saved: "rale_state_save idle_world sample_state
                 = (0, snd (rale_state_save idle_world sample_state))"
    by (simp add: rale_state_save_def idle_world_def sample_config_def rale_base_path_def Let_def)
  have cfg: "rale_config (snd (rale_state_save idle_world sample_state)) = rale_config idle_world"
    by (simp add: rale_state_save_def idle_world_def sample_config_def rale_base_path_def Let_def)
  have range: "0 \<le> sint (current_term sample_state)" "- 1 \<le> sint (voted_for sample_state)"
    "- 1 \<le> sint (leader_id sample_state)" "0 \<le> sint (last_log_index sample_state)"
    "0 \<le> sint (last_log_term sample_state)"
    by (simp_all add: sample_state_def idle_world_def)
  show ?thesis
    using rale_state_roundtrip [OF saved refl cfg range] saved range
    by (simp add: sample_state_def idle_world_def)
qed

text \<open>
  C8 as stated fails for a state with a negative \<open>voted_for\<close> other than \<open>-1\<close> (the vote
  handler stores whatever candidate id \<open>atoi\<close> returns): the save succeeds, the file
  holds \<open>-5\<close>, and the load keeps the default \<open>-1\<close> because it only takes over values
  that are at least 0.
\<close>

theorem rale_state_roundtrip_counterexample:
  "fst (rale_state_save idle_world (sample_state\<lparr>voted_for := - 5\<rparr>)) = 0 \<and>
   voted_for (rale_proto_init_state
                (snd (rale_state_save idle_world (sample_state\<lparr>voted_for := - 5\<rparr>))))
     \<noteq> voted_for (sample_state\<lparr>voted_for := - 5\<rparr>)"
  by (simp add: rale_state_save_def idle_world_def sample_config_def rale_base_path_def Let_def
      rale_proto_init_state_def rale_state_load_def rale_state_line_def scan_five_state_line
      write_file_def rale_initial_state_def sample_state_def)

section \<open>The leader check of the write pipeline\<close>

text \<open>
  C10. Whenever one of the five fields that \<open>dstore_is_current_leader\<close> and
  \<open>dstore_get_current_leader\<close> parse from the first line of \<open>rale.state\<close> is negative
  (a missing field counts as \<open>-1\<close>), the first returns 0 and the second \<open>-1\<close>. In
  particular, when the file is what \<open>rale_state_save\<close> writes for a state with
  \<open>voted_for = -1\<close> whose \<open>leader_id\<close> is the node's own id, the node is not taken for the
  leader, no leader is known, and the write pipeline leaves a \<open>PUT\<close> unapplied and
  unforwarded.
\<close>

theorem leader_check_rejects_negative_fields:
  "(files (fs w) (dstore_state_path w) = Some content \<and> fgets_first 256 content = Some line \<and>
    parse_state_tokens line = (t, v, l, li, lt) \<and>
    (sint t < 0 \<or> sint v < 0 \<or> sint l < 0 \<or> sint li < 0 \<or> sint lt < 0) \<longrightarrow>
      dstore_is_current_leader w = 0 \<and> dstore_get_current_leader w = - 1) \<and>
   (files (fs w) (dstore_state_path w) = Some (rale_state_line st) \<and> voted_for st = - 1 \<and>
    leader_id st = self_id (cluster w) \<longrightarrow>
      dstore_is_current_leader w = 0 \<and> dstore_get_current_leader w = - 1 \<and>
      put_as_leader_or_forward w k val_text = w)"
proof -
  have general: "dstore_is_current_leader w = 0 \<and> dstore_get_current_leader w = - 1"
    if "files (fs w) (dstore_state_path w) = Some content" "fgets_first 256 content = Some line"
      "parse_state_tokens line = (t, v, l, li, lt)"
      "sint t < 0 \<or> sint v < 0 \<or> sint l < 0 \<or> sint li < 0 \<or> sint lt < 0"
    for content line t v l li lt
    using that by (auto simp add: dstore_is_current_leader_def dstore_get_current_leader_def)
  have saved: "dstore_is_current_leader w = 0 \<and> dstore_get_current_leader w = - 1"
    if "files (fs w) (dstore_state_path w) = Some (rale_state_line st)" "voted_for st = - 1"
    using that
    by (simp add: rale_state_line_def fgets_first_state_line parse_state_tokens_state_line
        dstore_is_current_leader_def dstore_get_current_leader_def)
  show ?thesis
    using general saved by (auto simp add: put_as_leader_or_forward_def)
qed

theorem leader_check_rejects_negative_fields_witness:
  "files (fs unvoted_leader_world) (dstore_state_path unvoted_leader_world)
     = Some (rale_state_line sample_state) \<and>
   fgets_first 256 (rale_state_line sample_state) = Some (rale_state_line sample_state) \<and>
   parse_state_tokens (rale_state_line sample_state) = (3, - 1, 1, 0, 0) \<and>
   sint (- 1 :: int32) < 0 \<and>
   voted_for sample_state = - 1 \<and>
   leader_id sample_state = self_id (cluster unvoted_leader_world) \<and>
   dstore_is_current_leader unvoted_leader_world = 0 \<and>
   dstore_get_current_leader unvoted_leader_world = - 1 \<and>
   put_as_leader_or_forward unvoted_leader_world ''color'' ''blue'' = unvoted_leader_world"
proof -
  have f: "files (fs unvoted_leader_world) (dstore_state_path unvoted_leader_world)
             = Some (rale_state_line sample_state)"
    by (simp add: unvoted_leader_world_def dstore_state_path_def idle_world_def sample_config_def
        write_file_def snprintf_def)
  have g: "fgets_first 256 (rale_state_line sample_state) = Some (rale_state_line sample_state)"
    by (simp add: rale_state_line_def fgets_first_state_line)
  have p: "parse_state_tokens (rale_state_line sample_state) = (3, - 1, 1, 0, 0)"
    by (simp add: rale_state_line_def parse_state_tokens_state_line sample_state_def idle_world_def)
  have v: "voted_for sample_state = - 1" "leader_id sample_state = self_id (cluster unvoted_leader_world)"
    by (simp_all add: sample_state_def unvoted_leader_world_def three_nodes_def)
  show ?thesis
    using leader_check_rejects_negative_fields
      [of unvoted_leader_world "rale_state_line sample_state" "rale_state_line sample_state"
          3 "- 1" 1 0 0 sample_state "''color''" "''blue''"]
      f g p v
    by simp
qed

section \<open>Vote requests\<close>










section \<open>The write pipeline\<close>

lemma forward_put_dropped: "dstore_put_from_command w (Some (''FORWARD_PUT '' @ kv)) = w"
  by (simp add: dstore_put_from_command_def starts_with_def)

lemma elected_is_leader: "dstore_is_current_leader elected_world = 1"
  by (simp add: dstore_is_current_leader_def elected_world_def dstore_state_path_def
      idle_world_def sample_config_def snprintf_def write_file_def fgets_first_state_line
      parse_state_tokens_state_line three_nodes_def)

text \<open>
  C2. A leader that receives \<open>FORWARD_PUT key=value\<close> should apply and replicate the
  write. On the elected leader the command \<open>FORWARD_PUT size=large\<close> changes nothing: the
  key is not in the table, \<open>rale.db\<close> is not written and no message is sent. The command
  passes the \<open>FORWARD_PUT\<close> block and is then rejected by the test for the prefix \<open>PUT\<close>.
\<close>

theorem forward_put_not_applied:
  "dstore_is_current_leader elected_world = 1 \<and>
   dstore_put_from_command elected_world (Some ''FORWARD_PUT size=large'') = elected_world \<and>
   db_get (hash_table (dstore_put_from_command elected_world (Some ''FORWARD_PUT size=large'')))
     (Some ''size'') 1024 = (- 1, None) \<and>
   files (fs (dstore_put_from_command elected_world (Some ''FORWARD_PUT size=large''))) ''/db/rale.db''
     = None \<and>
   tcp_sent (dstore_put_from_command elected_world (Some ''FORWARD_PUT size=large'')) = []"
proof -
  have same: "dstore_put_from_command elected_world (Some ''FORWARD_PUT size=large'') = elected_world"
    using forward_put_dropped [of elected_world "''size=large''"] by simp
  have obs: "db_get (hash_table elected_world) (Some ''size'') 1024 = (- 1, None)"
    "files (fs elected_world) ''/db/rale.db'' = None" "tcp_sent elected_world = []"
    by (simp_all add: elected_world_def idle_world_def db_get_def hash_get_def hash_init_def
        write_file_def)
  show ?thesis
    unfolding same using elected_is_leader obs by simp
qed

subsection \<open>Outbound clients\<close>



lemma tcp_client_send_no_clients: "no_outbound_clients w \<Longrightarrow> tcp_client_send w i m = w"
  by (simp add: no_outbound_clients_def tcp_client_send_def)

































text \<open>
  C3. The term written to \<open>rale.state\<close> should never be lower than the term persisted
  before. With \<open>3 1 1 0 0\<close> in the file, the leader snapshot \<open>LEADER 0 2\<close> (the form peers
  send on connect, with 0 in the place of the term) rewrites the file to \<open>0 1 2 0 0\<close>.
\<close>

theorem leader_snapshot_lowers_term:
  "files (fs elected_world) ''/db/rale.state'' = Some (''3 1 1 0 0'' @ [newline]) \<and>
   files (fs (dstore_put_from_command elected_world (Some ''LEADER 0 2''))) ''/db/rale.state''
     = Some (''0 1 2 0 0'' @ [newline])"
proof -
  have before: "files (fs elected_world) ''/db/rale.state'' = Some (state_line 3 1 1 0 0)"
    by (simp add: elected_world_def write_file_def)
  have path: "dstore_state_path elected_world = ''/db/rale.state''"
    by (simp add: dstore_state_path_def elected_world_def idle_world_def sample_config_def snprintf_def)
  have parsed: "parse_term_leader ''0 2'' = (0, 2)"
    by (simp add: parse_term_leader_def atoi_def is_space_def signed_digits_def is_digit_def
        digit_val_def LONG_MIN_def LONG_MAX_def)
  have "write_rale_state_leader elected_world 0 2 =
          elected_world\<lparr>fs := write_file (fs elected_world) ''/db/rale.state''
                                 (snprintf 256 (state_line 0 1 2 0 0))\<rparr>"
    by (simp add: write_rale_state_leader_def path before fgets_first_state_line
        parse_state_tokens_state_line)
       (simp add: elected_world_def idle_world_def write_file_def)
  then have "files (fs (write_rale_state_leader elected_world 0 2)) ''/db/rale.state''
               = Some (''0 1 2 0 0'' @ [newline])"
    by (simp add: write_file_def state_line_def show_small snprintf_def)
  moreover have "dstore_put_from_command elected_world (Some ''LEADER 0 2'')
                   = write_rale_state_leader elected_world 0 2"
    by (simp add: dstore_put_from_command_def starts_with_def parsed)
       (simp add: elected_world_def three_nodes_def)
  ultimately show ?thesis
    using before by (simp add: state_line_elected)
qed

section \<open>The membership registry\<close>

lemma find_slot_None_iff:
  "find_slot c i = None \<longleftrightarrow> (\<forall>j<unat (node_count c). node_id (nodes c j) \<noteq> i)"
  by (auto simp add: find_slot_def find_None_iff)

lemma cluster_save_state_cluster: "cluster (snd (cluster_save_state w)) = cluster w"
  by (simp add: cluster_save_state_def)

text \<open>
  C6, as amended. On an initialised registry, for a name whose length is not exactly
  256, \<open>cluster_add_node\<close> returns the general error if and only if the id is not in
  (0, 1000], the name is empty or longer than 256 characters, the ip is empty or longer
  than 46 characters, a port is 0 (the type \<open>uint16_t\<close> bounds it by 65535), the registry
  holds 10 entries, or a slot below \<open>node_count\<close> carries the id. Otherwise it returns
  success, \<open>node_count\<close> grows by one and the slot at the old \<open>node_count\<close> receives the id,
  the first 254 characters of the name, the ip, the ports, the status active and the
  current time; the other slots are untouched.
\<close>

theorem cluster_add_node_error_iff:
  assumes "cluster_initialized w" and "length nm \<noteq> 256"
  shows "(fst (cluster_add_node w i (Some nm) (Some addr) rp dp) = RALE_ERROR_GENERAL \<longleftrightarrow>
      (\<not> (0 < sint i \<and> sint i \<le> 1000) \<or> nm = [] \<or> length nm > 256 \<or> addr = [] \<or> length addr > 46
       \<or> rp = 0 \<or> dp = 0 \<or> unat (node_count (cluster w)) \<ge> 10
       \<or> (\<exists>j<unat (node_count (cluster w)). node_id (nodes (cluster w) j) = i)))
    \<and> (fst (cluster_add_node w i (Some nm) (Some addr) rp dp) \<noteq> RALE_ERROR_GENERAL \<longrightarrow>
        fst (cluster_add_node w i (Some nm) (Some addr) rp dp) = RALE_SUCCESS \<and>
        cluster (snd (cluster_add_node w i (Some nm) (Some addr) rp dp)) =
          (cluster w)\<lparr>nodes := (nodes (cluster w))(unat (node_count (cluster w)) :=
                (nodes (cluster w) (unat (node_count (cluster w))))
                  \<lparr>node_id := i, name := take 254 nm, ip := addr, rale_port := rp,
                   dstore_port := dp, status := NODE_STATUS_ACTIVE,
                   node_last_heartbeat := clock w\<rparr>),
              node_count := node_count (cluster w) + 1\<rparr>)"
proof -
  have p: "unat rp \<le> 65535" "unat dp \<le> 65535"
    using unsigned_less [of rp] unsigned_less [of dp] by (simp_all add: less_Suc_eq_le [symmetric] del: unsigned_less)
  have z: "unat rp = 0 \<longleftrightarrow> rp = 0" "unat dp = 0 \<longleftrightarrow> dp = 0"
    by (simp_all add: unat_eq_0)
  show ?thesis
    using assms p z
    by (auto simp add: cluster_add_node_def find_slot_None_iff cluster_save_state_cluster
        RALE_ERROR_GENERAL_def RALE_SUCCESS_def MAX_REASONABLE_NODE_ID_def
        MAX_REASONABLE_PORT_def MAX_REASONABLE_NAME_LEN_def MAX_REASONABLE_IP_LEN_def
        MAX_NODES_def NAME_MAX_def IP_ADDR_MAX_def strlcpy_def Let_def)
qed

theorem cluster_add_node_error_iff_witness:
  "cluster_initialized idle_world \<and> length ''n1'' \<noteq> 256 \<and>
   fst (cluster_add_node idle_world 1 (Some ''n1'') (Some ''10.0.0.1'') 5001 6001) = RALE_SUCCESS \<and>
   node_count (cluster (snd (cluster_add_node idle_world 1 (Some ''n1'') (Some ''10.0.0.1'') 5001 6001))) = 1 \<and>
   name (nodes (cluster (snd (cluster_add_node idle_world 1 (Some ''n1'') (Some ''10.0.0.1'') 5001 6001))) 0) = ''n1''"
  using cluster_add_node_error_iff
    [where w = idle_world and i = 1 and nm = "''n1''" and addr = "''10.0.0.1''"
       and rp = 5001 and dp = 6001]
  by (simp add: idle_world_def empty_cluster_def RALE_ERROR_GENERAL_def RALE_SUCCESS_def)

text \<open>
  C6 as stated fails for a name of 255 characters: the call succeeds.
\<close>

theorem cluster_add_node_long_name_counterexample:
  "fst (cluster_add_node idle_world 1 (Some (replicate 255 (CHR ''n''))) (Some ''10.0.0.1'') 5001 6001)
     = RALE_SUCCESS \<and>
   length (replicate 255 (CHR ''n'')) > 254"
  by (simp add: cluster_add_node_def idle_world_def find_slot_def empty_cluster_def
        RALE_ERROR_GENERAL_def RALE_SUCCESS_def MAX_REASONABLE_NODE_ID_def
        MAX_REASONABLE_PORT_def MAX_REASONABLE_NAME_LEN_def MAX_REASONABLE_IP_LEN_def
        MAX_NODES_def)

lemma load_line_keeps_zero_count:
  assumes "\<forall>vtext. split_state_line raw = Some (''node_count'', vtext) \<longrightarrow> atoi vtext = 0"
    and "node_count (lv_cluster v) = 0"
  shows "node_count (lv_cluster (load_line v raw)) = 0"
proof (cases "split_state_line raw")
  case None
  with assms(2) show ?thesis
    by (simp add: load_line_def)
next
  case (Some kv)
  obtain k vtext where kv: "kv = (k, vtext)"
    by (cases kv)
  show ?thesis
  proof (cases "k = ''node_count''")
    case True
    with assms(1) Some kv have "atoi vtext = 0"
      by simp
    with True Some kv show ?thesis
      by (simp add: load_line_def apply_state_line_def)
  next
    case False
    with assms(2) Some kv show ?thesis
      by (simp add: load_line_def apply_state_line_def Let_def)
  qed
qed

lemma foldl_load_line_keeps_zero_count:
  "\<forall>raw\<in>set ls. \<forall>vtext. split_state_line raw = Some (''node_count'', vtext) \<longrightarrow> atoi vtext = 0 \<Longrightarrow>
   node_count (lv_cluster v) = 0 \<Longrightarrow>
   node_count (lv_cluster (foldl load_line v ls)) = 0"
proof (induction ls arbitrary: v)
  case Nil
  then show ?case by simp
next
  case (Cons raw ls)
  have "node_count (lv_cluster (load_line v raw)) = 0"
    using Cons.prems by (intro load_line_keeps_zero_count) simp_all
  with Cons show ?case
    by simp
qed

lemma load_line_unrecognised: "\<not> recognised_line raw \<Longrightarrow> load_line v raw = v"
  by (auto simp add: recognised_line_def load_line_def apply_state_line_def known_state_key_def
      split: option.splits)

lemma foldl_load_line_filter:
  "foldl load_line v (filter recognised_line ls) = foldl load_line v ls"
  by (induction ls arbitrary: v) (simp_all add: load_line_unrecognised)

lemma foldl_load_line_unrecognised:
  "\<forall>l\<in>set ls. \<not> recognised_line l \<Longrightarrow> foldl load_line v ls = v"
  by (induction ls arbitrary: v) (simp_all add: load_line_unrecognised)

text \<open>
  C7, as amended. \<open>cluster_load_state\<close> always returns success. Without a configured
  state file, or when the file cannot be opened, nothing changes. Otherwise only the
  registry changes: it is reset to the empty registry and then the recognised lines of
  the file (those with \<open>=\<close>, a key below 64 and a value below 256 characters, and a known
  key) are applied in order; every other line leaves the registry and the values
  collected so far unchanged. So a file without recognised lines leaves the empty
  registry, and if every \<open>node_count\<close> line of the file has a value that \<open>atoi\<close> reads as
  0 (no number to parse), or there is no such line, the loaded registry has
  \<open>node_count = 0\<close>. Nothing is promised about \<open>self_id\<close> and the node slots in that case.
\<close>

theorem cluster_load_state_lenient:
  "fst (cluster_load_state w) = RALE_SUCCESS \<and>
   (cluster_state_file w = [] \<or> files (fs w) (cluster_state_file w) = None \<longrightarrow>
      snd (cluster_load_state w) = w) \<and>
   (cluster_state_file w \<noteq> [] \<and> files (fs w) (cluster_state_file w) = Some content \<longrightarrow>
      snd (cluster_load_state w) = w\<lparr>cluster := load_cluster_text content\<rparr> \<and>
      cluster (snd (cluster_load_state w))
        = lv_cluster (foldl load_line (initial_load_vars\<lparr>lv_cluster := empty_cluster\<rparr>)
            (filter recognised_line (fgets_all 512 content))) \<and>
      ((\<forall>l\<in>set (fgets_all 512 content). \<not> recognised_line l) \<longrightarrow>
         cluster (snd (cluster_load_state w)) = empty_cluster) \<and>
      ((\<forall>l\<in>set (fgets_all 512 content).
           \<forall>x. split_state_line l = Some (''node_count'', x) \<longrightarrow> atoi x = 0) \<longrightarrow>
         node_count (cluster (snd (cluster_load_state w))) = 0)) \<and>
   (split_state_line raw = None \<longrightarrow> load_line v raw = v) \<and>
   (split_state_line raw = Some (k, vtext) \<and> \<not> known_state_key k \<longrightarrow> load_line v raw = v) \<and>
   ((\<forall>l\<in>set (fgets_all 512 content).
        \<forall>x. split_state_line l = Some (''node_count'', x) \<longrightarrow> atoi x = 0) \<longrightarrow>
      node_count (load_cluster_text content) = 0)"
proof -
  have ret: "fst (cluster_load_state w) = RALE_SUCCESS"
    by (simp add: cluster_load_state_def split: option.splits)
  have absent: "snd (cluster_load_state w) = w"
    if "cluster_state_file w = [] \<or> files (fs w) (cluster_state_file w) = None"
    using that by (auto simp add: cluster_load_state_def)
  have loaded: "snd (cluster_load_state w) = w\<lparr>cluster := load_cluster_text content\<rparr>"
    if "cluster_state_file w \<noteq> []" "files (fs w) (cluster_state_file w) = Some content"
    using that by (simp add: cluster_load_state_def)
  have start: "initial_load_vars\<lparr>lv_cluster := empty_cluster\<rparr> = initial_load_vars"
    by (simp add: initial_load_vars_def)
  have filtered: "load_cluster_text content
      = lv_cluster (foldl load_line (initial_load_vars\<lparr>lv_cluster := empty_cluster\<rparr>)
          (filter recognised_line (fgets_all 512 content)))"
    unfolding start by (simp add: load_cluster_text_def foldl_load_line_filter)
  have reset: "load_cluster_text content = empty_cluster"
    if "\<forall>l\<in>set (fgets_all 512 content). \<not> recognised_line l"
    using foldl_load_line_unrecognised [OF that, of initial_load_vars]
    by (simp add: load_cluster_text_def initial_load_vars_def)
  have skip: "load_line v raw = v" if "split_state_line raw = Some (k, vtext)" "\<not> known_state_key k"
    using that by (auto simp add: load_line_def apply_state_line_def known_state_key_def)
  have none: "load_line v raw = v" if "split_state_line raw = None"
    using that by (simp add: load_line_def)
  have count: "node_count (load_cluster_text content) = 0"
    if "\<forall>l\<in>set (fgets_all 512 content). \<forall>x. split_state_line l = Some (''node_count'', x) \<longrightarrow> atoi x = 0"
    unfolding load_cluster_text_def
    using that by (rule foldl_load_line_keeps_zero_count) (simp add: initial_load_vars_def empty_cluster_def)
  have file_case: "snd (cluster_load_state w) = w\<lparr>cluster := load_cluster_text content\<rparr> \<and>
      cluster (snd (cluster_load_state w))
        = lv_cluster (foldl load_line (initial_load_vars\<lparr>lv_cluster := empty_cluster\<rparr>)
            (filter recognised_line (fgets_all 512 content))) \<and>
      ((\<forall>l\<in>set (fgets_all 512 content). \<not> recognised_line l) \<longrightarrow>
         cluster (snd (cluster_load_state w)) = empty_cluster) \<and>
      ((\<forall>l\<in>set (fgets_all 512 content).
           \<forall>x. split_state_line l = Some (''node_count'', x) \<longrightarrow> atoi x = 0) \<longrightarrow>
         node_count (cluster (snd (cluster_load_state w))) = 0)"
    if "cluster_state_file w \<noteq> [] \<and> files (fs w) (cluster_state_file w) = Some content"
  proof -
    have eq: "snd (cluster_load_state w) = w\<lparr>cluster := load_cluster_text content\<rparr>"
      using that loaded by blast
    have c: "cluster (snd (cluster_load_state w)) = load_cluster_text content"
      unfolding eq by simp
    show ?thesis
      unfolding c using eq filtered reset count by blast
  qed
  from ret absent file_case none skip count show ?thesis
    by blast
qed

lemma fgets_corrupt:
  "fgets_all 512 corrupt_state_text =
    [''self_id=3'' @ [newline], ''node_count=abc'' @ [newline],
     ''node[0].id=7'' @ [newline], ''node[0].name=n7'' @ [newline],
     ''node[0].ip=10.0.0.7'' @ [newline], ''node[0].rale_port=5007'' @ [newline],
     ''node[0].dstore_port=6007'' @ [newline]]"
  by (simp add: fgets_all_def corrupt_state_text_def newline_def)

lemma fgets_unknown:
  "fgets_all 512 unknown_state_text = [''color=blue'' @ [newline], ''no separator'' @ [newline]]"
  by (simp add: fgets_all_def unknown_state_text_def newline_def)

text \<open>
  Node 1 with three members in memory: without a state file the load changes nothing;
  loading a file of unknown lines leaves the empty registry; loading the file with
  \<open>node_count=abc\<close> leaves \<open>node_count = 0\<close>.
\<close>

theorem cluster_load_state_lenient_witness:
  "cluster_state_file idle_world = [] \<and>
   cluster_load_state idle_world = (RALE_SUCCESS, idle_world) \<and>
   cluster_state_file (state_file_world unknown_state_text) \<noteq> [] \<and>
   files (fs (state_file_world unknown_state_text))
     (cluster_state_file (state_file_world unknown_state_text)) = Some unknown_state_text \<and>
   node_count (cluster (state_file_world unknown_state_text)) = 3 \<and>
   self_id (cluster (state_file_world unknown_state_text)) = 1 \<and>
   fst (cluster_load_state (state_file_world unknown_state_text)) = RALE_SUCCESS \<and>
   cluster (snd (cluster_load_state (state_file_world unknown_state_text))) = empty_cluster \<and>
   files (fs (state_file_world corrupt_state_text))
     (cluster_state_file (state_file_world corrupt_state_text)) = Some corrupt_state_text \<and>
   node_count (cluster (state_file_world corrupt_state_text)) = 3 \<and>
   split_state_line (''node_count=abc'' @ [newline]) = Some (''node_count'', ''abc'') \<and>
   atoi ''abc'' = 0 \<and>
   fst (cluster_load_state (state_file_world corrupt_state_text)) = RALE_SUCCESS \<and>
   node_count (cluster (snd (cluster_load_state (state_file_world corrupt_state_text)))) = 0 \<and>
   node_count (load_cluster_text corrupt_state_text) = 0 \<and>
   split_state_line (''no separator'' @ [newline]) = None \<and>
   load_line initial_load_vars (''no separator'' @ [newline]) = initial_load_vars \<and>
   split_state_line (''color=blue'' @ [newline]) = Some (''color'', ''blue'') \<and>
   \<not> known_state_key ''color'' \<and>
   load_line initial_load_vars (''color=blue'' @ [newline]) = initial_load_vars"
proof -
  have none: "split_state_line (''no separator'' @ [newline]) = None"
    by (simp add: split_state_line_def c_str_def newline_def)
  have some: "split_state_line (''color=blue'' @ [newline]) = Some (''color'', ''blue'')"
    by (simp add: split_state_line_def c_str_def newline_def strlcpy_def)
  have unknown: "\<not> known_state_key ''color''"
    by (simp add: known_state_key_def starts_with_def)
  have skipped: "\<forall>l\<in>set (fgets_all 512 unknown_state_text). \<not> recognised_line l"
    using none some unknown by (simp add: fgets_unknown recognised_line_def)
  have count: "\<forall>l\<in>set (fgets_all 512 corrupt_state_text).
      \<forall>x. split_state_line l = Some (''node_count'', x) \<longrightarrow> atoi x = 0"
    by (simp add: fgets_corrupt split_state_line_def c_str_def newline_def strlcpy_def
        atoi_def is_space_def signed_digits_def is_digit_def LONG_MIN_def LONG_MAX_def)
  have bad: "split_state_line (''node_count=abc'' @ [newline]) = Some (''node_count'', ''abc'')"
       "atoi ''abc'' = 0"
    by (simp_all add: split_state_line_def c_str_def newline_def strlcpy_def
        atoi_def is_space_def signed_digits_def is_digit_def LONG_MIN_def LONG_MAX_def)
  have world: "cluster_state_file idle_world = []"
      "cluster_state_file (state_file_world content) \<noteq> []"
      "files (fs (state_file_world content)) (cluster_state_file (state_file_world content))
         = Some content"
      "node_count (cluster (state_file_world content)) = 3"
      "self_id (cluster (state_file_world content)) = 1" for content
    by (simp_all add: idle_world_def state_file_world_def write_file_def three_nodes_def)
  have idle: "cluster_load_state idle_world = (fst (cluster_load_state idle_world), snd (cluster_load_state idle_world))"
    by simp
  show ?thesis
    using cluster_load_state_lenient [where w = idle_world and raw = "''no separator'' @ [newline]"
        and v = initial_load_vars and k = "''k''" and vtext = "''v''" and content = corrupt_state_text]
      cluster_load_state_lenient [where w = "state_file_world unknown_state_text"
        and raw = "''color=blue'' @ [newline]" and v = initial_load_vars and k = "''color''"
        and vtext = "''blue''" and content = unknown_state_text]
      cluster_load_state_lenient [where w = "state_file_world corrupt_state_text"
        and raw = "''color=blue'' @ [newline]" and v = initial_load_vars and k = "''color''"
        and vtext = "''blue''" and content = corrupt_state_text]
      none some unknown skipped count bad world idle
    by (metis (no_types, lifting))
qed

text \<open>
  C7 as stated fails: with a \<open>node_count\<close> line that cannot be parsed the load ends with
  \<open>node_count = 0\<close>, but \<open>self_id\<close> is 3, not \<open>-1\<close>, and slot 0 holds node 7: the registry
  is not the empty one.
\<close>

theorem cluster_load_state_counterexample:
  "atoi ''abc'' = 0 \<and>
   node_count (load_cluster_text corrupt_state_text) = 0 \<and>
   self_id (load_cluster_text corrupt_state_text) = 3 \<and>
   node_id (nodes (load_cluster_text corrupt_state_text) 0) = 7 \<and>
   fst (cluster_load_state (state_file_world corrupt_state_text)) = RALE_SUCCESS \<and>
   node_count (cluster (snd (cluster_load_state (state_file_world corrupt_state_text)))) = 0 \<and>
   self_id (cluster (snd (cluster_load_state (state_file_world corrupt_state_text)))) = 3 \<and>
   self_id (cluster (snd (cluster_load_state (state_file_world corrupt_state_text)))) \<noteq> - 1 \<and>
   node_id (nodes (cluster (snd (cluster_load_state (state_file_world corrupt_state_text)))) 0) = 7 \<and>
   cluster (snd (cluster_load_state (state_file_world corrupt_state_text))) \<noteq> empty_cluster"
proof -
  have parsed: "atoi ''abc'' = 0 \<and>
      node_count (load_cluster_text corrupt_state_text) = 0 \<and>
      self_id (load_cluster_text corrupt_state_text) = 3 \<and>
      node_id (nodes (load_cluster_text corrupt_state_text) 0) = 7"
    by (simp add: load_cluster_text_def fgets_corrupt load_line_def split_state_line_def c_str_def
        newline_def strlcpy_def apply_state_line_def starts_with_def atoi_def is_space_def
        signed_digits_def is_digit_def digit_val_def LONG_MIN_def LONG_MAX_def
        initial_load_vars_def empty_cluster_def MAX_NODES_def NAME_MAX_def IP_ADDR_MAX_def Let_def)
  have run: "cluster_load_state (state_file_world corrupt_state_text)
      = (RALE_SUCCESS, (state_file_world corrupt_state_text)\<lparr>cluster := load_cluster_text corrupt_state_text\<rparr>)"
    by (simp add: cluster_load_state_def state_file_world_def idle_world_def write_file_def)
  have differs: "self_id empty_cluster = - 1"
    by (simp add: empty_cluster_def)
  show ?thesis
    unfolding run using parsed differs by auto
qed

end
